theory Spec2Isabelle
  imports Main
begin

section \<open>Python values read from the legacy document\<close>

text \<open>
  \<^verbatim>\<open>json.load\<close> yields \<^verbatim>\<open>None\<close>, \<^verbatim>\<open>bool\<close>, \<^verbatim>\<open>int\<close> (unbounded), \<^verbatim>\<open>float\<close>,
  \<^verbatim>\<open>str\<close>, \<^verbatim>\<open>list\<close> and \<^verbatim>\<open>dict\<close> (string keys, insertion order kept). A dict is an
  association list in iteration order; the keys of a dict are distinct, which nothing
  below relies on. A float is carried as the text \<^verbatim>\<open>json.dumps\<close>
  prints for it (\<^verbatim>\<open>1.5\<close>, \<^verbatim>\<open>0.0\<close>, \<^verbatim>\<open>-0.0\<close>, \<^verbatim>\<open>NaN\<close>, \<^verbatim>\<open>Infinity\<close>, \<^verbatim>\<open>-Infinity\<close>): the
  program never computes with one. A \<^verbatim>\<open>str\<close> is a list of 8-bit characters, read as the
  code points below 256.
\<close>

datatype json =
    JNull
  | JBool bool
  | JInt int
  | JFloat string
  | JStr string
  | JArr "json list"
  | JObj "(string \<times> json) list"

type_synonym pydict = "(string \<times> json) list"

datatype py_error =
    OSError            \<comment> \<open>\<^verbatim>\<open>open\<close> on a directory or without read permission\<close>
  | ValueError         \<comment> \<open>\<^verbatim>\<open>json.load\<close> on text that is not JSON\<close>
  | AttributeError     \<comment> \<open>\<^verbatim>\<open>.pop\<close>, \<^verbatim>\<open>.get\<close>, \<^verbatim>\<open>.items\<close> on a value that has no such method\<close>
  | TypeError          \<comment> \<open>\<^verbatim>\<open>list.pop\<close> called with two arguments\<close>
  | OverflowError      \<comment> \<open>an \<^verbatim>\<open>int\<close> outside 64 bits bound to a statement\<close>
  | ProgrammingError   \<comment> \<open>a \<^verbatim>\<open>list\<close> or \<^verbatim>\<open>dict\<close> bound to a statement\<close>
  | IntegrityError     \<comment> \<open>NULL in a NOT NULL column that has no default\<close>

subsection \<open>\<^verbatim>\<open>dict.get\<close>, \<^verbatim>\<open>dict.pop\<close>, truth value\<close>

definition dict_get :: "pydict \<Rightarrow> string \<Rightarrow> json \<Rightarrow> json" where
  "dict_get d k dflt = (case map_of d k of None \<Rightarrow> dflt | Some v \<Rightarrow> v)"

definition dict_pop :: "pydict \<Rightarrow> string \<Rightarrow> json \<Rightarrow> json \<times> pydict" where
  "dict_pop d k dflt = (dict_get d k dflt, filter (\<lambda>kv. fst kv \<noteq> k) d)"

fun truthy :: "json \<Rightarrow> bool" where
  "truthy JNull = False"
| "truthy (JBool b) = b"
| "truthy (JInt i) = (i \<noteq> 0)"
| "truthy (JFloat r) = (r \<noteq> ''0.0'' \<and> r \<noteq> ''-0.0'')"
| "truthy (JStr s) = (s \<noteq> [])"
| "truthy (JArr xs) = (xs \<noteq> [])"
| "truthy (JObj kvs) = (kvs \<noteq> [])"

subsection \<open>\<^verbatim>\<open>int(str)\<close>\<close>

text \<open>
  \<^verbatim>\<open>int\<close> on a string strips white space on both sides (tab, LF, VT, FF, CR, space, and
  the two white-space code points U+0085 and U+00A0 of the range), reads one optional
  sign, then decimal digits in which single underscores may separate digits. Anything
  else raises \<^verbatim>\<open>ValueError\<close> (here \<open>None\<close>), and so does a string of more than 4300
  digits (the interpreter's default limit on integer string conversion).
\<close>

definition is_space :: "char \<Rightarrow> bool" where
  "is_space c = (c \<in> set [CHR 0x09, CHR 0x0A, CHR 0x0B, CHR 0x0C, CHR 0x0D, CHR 0x20,
                           CHR 0x85, CHR 0xA0])"

definition is_digit :: "char \<Rightarrow> bool" where
  "is_digit c = (c \<in> set ''0123456789'')"

definition digit_val :: "char \<Rightarrow> nat" where
  "digit_val c = of_char c - 48"

fun digits_value :: "bool \<Rightarrow> nat \<Rightarrow> string \<Rightarrow> nat option" where
  "digits_value prev_digit acc [] = (if prev_digit then Some acc else None)"
| "digits_value prev_digit acc (c # cs) =
     (if is_digit c then digits_value True (10 * acc + digit_val c) cs
      else if c = CHR ''_'' \<and> prev_digit then digits_value False acc cs
      else None)"

definition strip :: "string \<Rightarrow> string" where
  "strip s = rev (dropWhile is_space (rev (dropWhile is_space s)))"

definition py_int :: "string \<Rightarrow> int option" where
  "py_int s =
     (let t = strip s;
          neg = (t \<noteq> [] \<and> hd t = CHR ''-'');
          body = (if t \<noteq> [] \<and> (hd t = CHR ''-'' \<or> hd t = CHR ''+'') then tl t else t)
      in if 4300 < length (filter is_digit body) then None
         else (case digits_value False 0 body of
                 None \<Rightarrow> None
               | Some n \<Rightarrow> Some (if neg then - int n else int n)))"

subsection \<open>\<^verbatim>\<open>json.dumps\<close>\<close>

text \<open>
  The default encoder: separators \<^verbatim>\<open>", "\<close> and \<^verbatim>\<open>": "\<close>, \<^verbatim>\<open>ensure_ascii\<close> on, so every
  character outside the printable ASCII range is written as an escape.
\<close>

definition digit_char :: "nat \<Rightarrow> char" where
  "digit_char n = ''0123456789abcdef'' ! n"

fun str_nat :: "nat \<Rightarrow> string" where
  "str_nat n = (if n < 10 then [digit_char n] else str_nat (n div 10) @ [digit_char (n mod 10)])"

declare str_nat.simps [simp del]

definition str_int :: "int \<Rightarrow> string" where
  "str_int i = (if i < 0 then CHR ''-'' # str_nat (nat (- i)) else str_nat (nat i))"

definition escape_char :: "char \<Rightarrow> string" where
  "escape_char c =
     (if c = CHR 0x22 then [CHR 0x5C, CHR 0x22]
      else if c = CHR 0x5C then [CHR 0x5C, CHR 0x5C]
      else if c = CHR 0x0A then [CHR 0x5C, CHR ''n'']
      else if c = CHR 0x0D then [CHR 0x5C, CHR ''r'']
      else if c = CHR 0x09 then [CHR 0x5C, CHR ''t'']
      else if c = CHR 0x08 then [CHR 0x5C, CHR ''b'']
      else if c = CHR 0x0C then [CHR 0x5C, CHR ''f'']
      else if 32 \<le> (of_char c :: nat) \<and> (of_char c :: nat) \<le> 126 then [c]
      else [CHR 0x5C, CHR ''u'', CHR ''0'', CHR ''0'',
            digit_char (of_char c div 16), digit_char (of_char c mod 16)])"

definition quote :: "string \<Rightarrow> string" where
  "quote s = CHR 0x22 # concat (map escape_char s) @ [CHR 0x22]"

fun join :: "string \<Rightarrow> string list \<Rightarrow> string" where
  "join sep [] = []"
| "join sep [x] = x"
| "join sep (x # y # ys) = x @ sep @ join sep (y # ys)"

fun dumps :: "json \<Rightarrow> string" where
  "dumps JNull = ''null''"
| "dumps (JBool b) = (if b then ''true'' else ''false'')"
| "dumps (JInt i) = str_int i"
| "dumps (JFloat r) = r"
| "dumps (JStr s) = quote s"
| "dumps (JArr xs) = ''['' @ join '', '' (map dumps xs) @ '']''"
| "dumps (JObj kvs) =
     ''{'' @ join '', '' (map (\<lambda>kv. quote (fst kv) @ '': '' @ dumps (snd kv)) kvs) @ ''}''"

section \<open>The relational store\<close>

text \<open>
  A value as the \<^verbatim>\<open>sqlite3\<close> module binds it: \<^verbatim>\<open>None\<close> is NULL, an \<^verbatim>\<open>int\<close> (and a
  \<^verbatim>\<open>bool\<close>, its subclass) a 64-bit INTEGER, a \<^verbatim>\<open>float\<close> a REAL (NaN is bound as NULL),
  a \<^verbatim>\<open>str\<close> a TEXT. A row holds the values as bound; the coercion the engine applies
  afterwards by column affinity is a fixed function of the bound value and is not
  modelled.
\<close>

datatype sqlval = SNull | SInt int | SReal string | SText string

fun bind_param :: "json \<Rightarrow> py_error + sqlval" where
  "bind_param JNull = Inr SNull"
| "bind_param (JBool b) = Inr (SInt (if b then 1 else 0))"
| "bind_param (JInt i) =
     (if - (2 ^ 63) \<le> i \<and> i < 2 ^ 63 then Inr (SInt i) else Inl OverflowError)"
| "bind_param (JFloat r) = Inr (if r = ''NaN'' then SNull else SReal r)"
| "bind_param (JStr s) = Inr (SText s)"
| "bind_param (JArr xs) = Inl ProgrammingError"
| "bind_param (JObj kvs) = Inl ProgrammingError"

text \<open>Parameters are bound in order; the first one that cannot be bound raises.\<close>

fun bind_params :: "json list \<Rightarrow> py_error + sqlval list" where
  "bind_params [] = Inr []"
| "bind_params (p # ps) =
     (case bind_param p of
        Inl e \<Rightarrow> Inl e
      | Inr v \<Rightarrow> (case bind_params ps of Inl e \<Rightarrow> Inl e | Inr vs \<Rightarrow> Inr (v # vs)))"

record column =
  cname :: string
  not_null :: bool
  dflt :: "sqlval option"

record table_schema =
  columns :: "column list"
  primary_key :: "string list"

definition col :: "string \<Rightarrow> bool \<Rightarrow> sqlval option \<Rightarrow> column" where
  "col n nn d = \<lparr>cname = n, not_null = nn, dflt = d\<rparr>"

text \<open>The two \<^verbatim>\<open>CREATE TABLE IF NOT EXISTS\<close> statements, column by column.\<close>

definition user_profiles_schema :: table_schema where
  "user_profiles_schema =
     \<lparr>columns =
        [col ''user_id'' True None,
         col ''guild_id'' True None,
         col ''level'' True (Some (SInt 1)),
         col ''total_xp'' True (Some (SInt 0)),
         col ''xp_to_next_level'' True (Some (SInt 100)),
         col ''total_commands_used'' True (Some (SInt 0)),
         col ''total_messages'' True (Some (SInt 0)),
         col ''last_daily'' False None,
         col ''daily_streak'' True (Some (SInt 0)),
         col ''last_message_timestamp'' False None,
         col ''achievements'' True (Some (SText ''[]'')),
         col ''best_rank'' True (Some (SInt 999)),
         col ''previous_rank'' True (Some (SInt 999)),
         col ''rank_improvement'' True (Some (SInt 0)),
         col ''images_shared'' True (Some (SInt 0)),
         col ''long_messages'' True (Some (SInt 0)),
         col ''links_shared'' True (Some (SInt 0)),
         col ''goals_completed'' True (Some (SInt 0)),
         col ''boost_days'' True (Some (SInt 0)),
         col ''first_boost_date'' False None,
         col ''xp_history'' True (Some (SText ''[]''))],
      primary_key = [''user_id'', ''guild_id'']\<rparr>"

definition daily_goals_schema :: table_schema where
  "daily_goals_schema =
     \<lparr>columns =
        [col ''guild_id'' False None,
         col ''date'' True None,
         col ''target'' True None,
         col ''progress'' True None,
         col ''claimers'' True (Some (SText ''[]'')),
         col ''completed'' True (Some (SInt 0)),
         col ''bonus_awarded_to'' True (Some (SText ''[]''))],
      primary_key = [''guild_id'']\<rparr>"

type_synonym row = "(string \<times> sqlval) list"
type_synonym table = "sqlval list \<rightharpoonup> row"

text \<open>
  \<^verbatim>\<open>INSERT OR REPLACE\<close> with every column named, in the table's own order. A NULL for a
  NOT NULL column is replaced by the column's default under \<^verbatim>\<open>OR REPLACE\<close>; without a
  default the statement aborts. The row then takes the place of any row with the same
  primary key.
\<close>

definition store_value :: "column \<Rightarrow> sqlval \<Rightarrow> py_error + sqlval" where
  "store_value c v =
     (if v = SNull \<and> not_null c
      then (case dflt c of Some d \<Rightarrow> Inr d | None \<Rightarrow> Inl IntegrityError)
      else Inr v)"

fun store_row :: "column list \<Rightarrow> sqlval list \<Rightarrow> py_error + row" where
  "store_row (c # cs) (v # vs) =
     (case store_value c v of
        Inl e \<Rightarrow> Inl e
      | Inr v' \<Rightarrow> (case store_row cs vs of
                     Inl e \<Rightarrow> Inl e
                   | Inr r \<Rightarrow> Inr ((cname c, v') # r)))"
| "store_row cs vs = Inr []"

text \<open>The primary key of a row: its values in the key columns, in the order of the key.\<close>

definition key_of :: "table_schema \<Rightarrow> row \<Rightarrow> sqlval list" where
  "key_of td r =
     map (\<lambda>k. case map_of r k of Some v \<Rightarrow> v | None \<Rightarrow> SNull) (primary_key td)"

definition make_row :: "table_schema \<Rightarrow> json list \<Rightarrow> py_error + row" where
  "make_row td params =
     (case bind_params params of
        Inl e \<Rightarrow> Inl e
      | Inr vals \<Rightarrow> store_row (columns td) vals)"

definition insert_or_replace :: "table_schema \<Rightarrow> json list \<Rightarrow> table \<Rightarrow> py_error + table" where
  "insert_or_replace td params t =
     (case make_row td params of
        Inl e \<Rightarrow> Inl e
      | Inr r \<Rightarrow> Inr (t(key_of td r \<mapsto> r)))"

text \<open>The database file: each table is absent or holds its rows.\<close>

record store =
  user_profiles :: "table option"
  daily_goals :: "table option"

definition empty_store :: store where
  "empty_store = \<lparr>user_profiles = None, daily_goals = None\<rparr>"

definition create_if_not_exists :: "table option \<Rightarrow> table" where
  "create_if_not_exists t = (case t of None \<Rightarrow> Map.empty | Some rows \<Rightarrow> rows)"

section \<open>The migration\<close>

text \<open>What the run prints, one constructor for each \<^verbatim>\<open>print\<close> of the source.\<close>

datatype msg =
    NotFound string
  | Loading string
  | Connecting string
  | MigratingUsers
  | SkippingInvalidGuild string
  | MigratedUsers nat
  | MigratingGoals
  | MigratedGoals nat
  | MigrationComplete

text \<open>
  The state the two loops work on: the rows seen through the open connection (not yet
  committed), the two counters and the text printed so far.
\<close>

record run_state =
  profiles :: table
  goals :: table
  user_count :: nat
  goal_count :: nat
  out :: "msg list"

definition print :: "msg \<Rightarrow> run_state \<Rightarrow> run_state" where
  "print m s = s\<lparr>out := out s @ [m]\<rparr>"

subsection \<open>User profiles\<close>

text \<open>The parameter tuple of the first \<^verbatim>\<open>INSERT OR REPLACE\<close>, field by field.\<close>

definition user_params :: "int \<Rightarrow> int \<Rightarrow> pydict \<Rightarrow> json list" where
  "user_params user_id guild_id user_data =
     (let level = dict_get user_data ''level'' (JInt 1);
          total_xp = dict_get user_data ''total_xp'' (JInt 0);
          xp_to_next_level = dict_get user_data ''xp_to_next_level'' (JInt 100);
          total_commands_used = dict_get user_data ''total_commands_used'' (JInt 0);
          total_messages = dict_get user_data ''total_messages'' (JInt 0);
          last_daily = dict_get user_data ''last_daily'' JNull;
          daily_streak = dict_get user_data ''daily_streak'' (JInt 0);
          last_message_timestamp = dict_get user_data ''last_message_timestamp'' JNull;
          achievements = JStr (dumps (dict_get user_data ''achievements'' (JArr [])));
          best_rank = dict_get user_data ''best_rank'' (JInt 999);
          previous_rank = dict_get user_data ''previous_rank'' (JInt 999);
          rank_improvement = dict_get user_data ''rank_improvement'' (JInt 0);
          images_shared = dict_get user_data ''images_shared'' (JInt 0);
          long_messages = dict_get user_data ''long_messages'' (JInt 0);
          links_shared = dict_get user_data ''links_shared'' (JInt 0);
          goals_completed = dict_get user_data ''goals_completed'' (JInt 0);
          boost_days = dict_get user_data ''boost_days'' (JInt 0);
          first_boost_date = dict_get user_data ''first_boost_date'' JNull;
          xp_history = JStr (dumps (dict_get user_data ''xp_history'' (JArr [])))
      in [JInt user_id, JInt guild_id, level, total_xp, xp_to_next_level,
          total_commands_used, total_messages, last_daily, daily_streak,
          last_message_timestamp, achievements, best_rank, previous_rank,
          rank_improvement, images_shared, long_messages, links_shared,
          goals_completed, boost_days, first_boost_date, xp_history])"

text \<open>
  The inner loop over \<^verbatim>\<open>users.items()\<close>. A key that \<^verbatim>\<open>int\<close> rejects is passed over; a
  record that is not a dict has no \<^verbatim>\<open>get\<close>. The result is the exception raised, if any,
  and the state reached.
\<close>

fun migrate_users :: "int \<Rightarrow> pydict \<Rightarrow> run_state \<Rightarrow> py_error option \<times> run_state" where
  "migrate_users guild_id [] s = (None, s)"
| "migrate_users guild_id ((user_id_str, user_data) # rest) s =
     (case py_int user_id_str of
        None \<Rightarrow> migrate_users guild_id rest s
      | Some user_id \<Rightarrow>
          (case user_data of
             JObj d \<Rightarrow>
               (case insert_or_replace user_profiles_schema (user_params user_id guild_id d)
                       (profiles s) of
                  Inl e \<Rightarrow> (Some e, s)
                | Inr t \<Rightarrow>
                    migrate_users guild_id rest
                      (s\<lparr>profiles := t, user_count := user_count s + 1\<rparr>))
           | _ \<Rightarrow> (Some AttributeError, s)))"

text \<open>The outer loop over \<^verbatim>\<open>data.items()\<close>.\<close>

fun migrate_guilds :: "pydict \<Rightarrow> run_state \<Rightarrow> py_error option \<times> run_state" where
  "migrate_guilds [] s = (None, s)"
| "migrate_guilds ((guild_id_str, users) # rest) s =
     (case py_int guild_id_str of
        None \<Rightarrow> migrate_guilds rest (print (SkippingInvalidGuild guild_id_str) s)
      | Some guild_id \<Rightarrow>
          (case users of
             JObj us \<Rightarrow>
               (case migrate_users guild_id us s of
                  (Some e, s') \<Rightarrow> (Some e, s')
                | (None, s') \<Rightarrow> migrate_guilds rest s')
           | _ \<Rightarrow> migrate_guilds rest s))"

subsection \<open>Daily goals\<close>

definition goal_params :: "int \<Rightarrow> pydict \<Rightarrow> json list" where
  "goal_params guild_id daily_goal =
     (let date = dict_get daily_goal ''date'' (JStr []);
          target = dict_get daily_goal ''target'' (JInt 0);
          progress = dict_get daily_goal ''progress'' (JInt 0);
          claimers = JStr (dumps (dict_get daily_goal ''claimers'' (JArr [])));
          completed = dict_get daily_goal ''completed'' (JBool False);
          bonus_awarded_to = JStr (dumps (dict_get daily_goal ''bonus_awarded_to'' (JArr [])))
      in [JInt guild_id, date, target, progress, claimers, completed, bonus_awarded_to])"

text \<open>
  The loop over \<^verbatim>\<open>meta_data.items()\<close>. \<^verbatim>\<open>guild_meta.get\<close> needs a dict; a falsy
  \<^verbatim>\<open>daily_goal\<close> (absent, \<^verbatim>\<open>None\<close>, empty, zero) writes nothing; a truthy one that is not a
  dict has no \<^verbatim>\<open>get\<close>.
\<close>

fun migrate_goals :: "pydict \<Rightarrow> run_state \<Rightarrow> py_error option \<times> run_state" where
  "migrate_goals [] s = (None, s)"
| "migrate_goals ((guild_id_str, guild_meta) # rest) s =
     (case py_int guild_id_str of
        None \<Rightarrow> migrate_goals rest s
      | Some guild_id \<Rightarrow>
          (case guild_meta of
             JObj gm \<Rightarrow>
               (let daily_goal = dict_get gm ''daily_goal'' JNull
                in if truthy daily_goal
                   then (case daily_goal of
                           JObj dg \<Rightarrow>
                             (case insert_or_replace daily_goals_schema (goal_params guild_id dg)
                                     (goals s) of
                                Inl e \<Rightarrow> (Some e, s)
                              | Inr t \<Rightarrow>
                                  migrate_goals rest
                                    (s\<lparr>goals := t, goal_count := goal_count s + 1\<rparr>))
                         | _ \<Rightarrow> (Some AttributeError, s))
                   else migrate_goals rest s)
           | _ \<Rightarrow> (Some AttributeError, s)))"

subsection \<open>The whole run\<close>

text \<open>
  What the input path names: nothing, a directory, a file that may not be read, or a
  regular file, given by what \<^verbatim>\<open>json.load\<close> makes of its text (\<open>None\<close> when the text is
  not JSON). \<^verbatim>\<open>os.path.exists\<close> is true for all but the first.
\<close>

datatype fs_entry = Missing | Directory | Unreadable | Regular "json option"

record world =
  db :: store
  stdout :: "msg list"

definition say :: "msg \<Rightarrow> world \<Rightarrow> world" where
  "say m w = w\<lparr>stdout := stdout w @ [m]\<rparr>"

text \<open>
  The two \<^verbatim>\<open>CREATE TABLE IF NOT EXISTS\<close> run outside any transaction and persist at once.
  The inserts open a transaction that only \<^verbatim>\<open>conn.commit()\<close> makes durable: a run that
  raises leaves the tables created and every row as it was.
\<close>

definition ensure_tables :: "store \<Rightarrow> store" where
  "ensure_tables st =
     \<lparr>user_profiles = Some (create_if_not_exists (user_profiles st)),
      daily_goals = Some (create_if_not_exists (daily_goals st))\<rparr>"

definition raised :: "py_error \<Rightarrow> world \<Rightarrow> run_state \<Rightarrow> py_error option \<times> world" where
  "raised e w s = (Some e, \<lparr>db = ensure_tables (db w), stdout = out s\<rparr>)"

text \<open>Lines 16 to 159: the body of \<^verbatim>\<open>migrate_levels\<close> once \<^verbatim>\<open>data\<close> is loaded.\<close>

definition migrate_data :: "json \<Rightarrow> string \<Rightarrow> world \<Rightarrow> py_error option \<times> world" where
  "migrate_data data db_path w =
     (case data of
        JObj d0 \<Rightarrow>
          (let (meta_data, d1) = dict_pop d0 ''__meta__'' (JObj []);
               (legacy, d2) = dict_pop d1 ''__legacy__'' (JObj []);
               w1 = say (Connecting db_path) w;
               st = ensure_tables (db w1);
               s0 = \<lparr>profiles = create_if_not_exists (user_profiles st),
                     goals = create_if_not_exists (daily_goals st),
                     user_count = 0, goal_count = 0,
                     out = stdout w1 @ [MigratingUsers]\<rparr>
           in case migrate_guilds d2 s0 of
                (Some e, s1) \<Rightarrow> raised e w s1
              | (None, s1) \<Rightarrow>
                  (let s2 = print MigratingGoals (print (MigratedUsers (user_count s1)) s1)
                   in case meta_data of
                        JObj md \<Rightarrow>
                          (case migrate_goals md s2 of
                             (Some e, s3) \<Rightarrow> raised e w s3
                           | (None, s3) \<Rightarrow>
                               (None,
                                \<lparr>db = \<lparr>user_profiles = Some (profiles s3),
                                        daily_goals = Some (goals s3)\<rparr>,
                                 stdout = out s3 @ [MigratedGoals (goal_count s3),
                                                    MigrationComplete]\<rparr>))
                      | _ \<Rightarrow> raised AttributeError w s2))
      | JArr xs \<Rightarrow> (Some TypeError, w)
      | _ \<Rightarrow> (Some AttributeError, w))"

definition migrate_levels ::
    "(string \<Rightarrow> fs_entry) \<Rightarrow> string \<Rightarrow> string \<Rightarrow> world \<Rightarrow> py_error option \<times> world" where
  "migrate_levels fs json_path db_path w =
     (case fs json_path of
        Missing \<Rightarrow> (None, say (NotFound json_path) w)
      | Directory \<Rightarrow> (Some OSError, say (Loading json_path) w)
      | Unreadable \<Rightarrow> (Some OSError, say (Loading json_path) w)
      | Regular None \<Rightarrow> (Some ValueError, say (Loading json_path) w)
      | Regular (Some data) \<Rightarrow> migrate_data data db_path (say (Loading json_path) w))"

section \<open>Notions used to state and prove the properties\<close>

text \<open>What a column holds once a parameter is bound and stored in it.\<close>

definition stored :: "column \<Rightarrow> json \<Rightarrow> py_error + sqlval" where
  "stored c p = (case bind_param p of Inl e \<Rightarrow> Inl e | Inr b \<Rightarrow> store_value c b)"

text \<open>
  The loops only ever add: rows on top of the rows already there, counts to the counts,
  text after the text. \<open>shift\<close> puts a state on top of given tables, counts and text;
  \<open>zero_state\<close> is the state with nothing in it.
\<close>

definition shift :: "table \<Rightarrow> table \<Rightarrow> nat \<Rightarrow> nat \<Rightarrow> msg list \<Rightarrow> run_state \<Rightarrow> run_state" where
  "shift P G uc gc pre s =
     \<lparr>profiles = P ++ profiles s, goals = G ++ goals s,
      user_count = uc + user_count s, goal_count = gc + goal_count s,
      out = pre @ out s\<rparr>"

definition zero_state :: run_state where
  "zero_state = \<lparr>profiles = Map.empty, goals = Map.empty, user_count = 0, goal_count = 0, out = []\<rparr>"

text \<open>The progression section: the document without its two reserved keys.\<close>

definition guild_entries :: "pydict \<Rightarrow> pydict" where
  "guild_entries d0 =
     filter (\<lambda>kv. fst kv \<noteq> ''__legacy__'') (filter (\<lambda>kv. fst kv \<noteq> ''__meta__'') d0)"

text \<open>
  The run in terms of what the two loops do from the state with nothing in it: the rows
  they write go on top of the rows of the store, and a loop that raises leaves the store
  with its tables ensured and nothing else.
\<close>

definition outcome ::
    "py_error option \<times> run_state \<Rightarrow> json \<Rightarrow> string \<Rightarrow> world \<Rightarrow> py_error option \<times> world" where
  "outcome users_run meta_data p w =
     (let pre = stdout w @ [Connecting p, MigratingUsers];
          P = create_if_not_exists (user_profiles (db w));
          G = create_if_not_exists (daily_goals (db w))
      in case users_run of
           (Some e, z1) \<Rightarrow> (Some e, \<lparr>db = ensure_tables (db w), stdout = pre @ out z1\<rparr>)
         | (None, z1) \<Rightarrow>
             (let pre2 = pre @ out z1 @ [MigratedUsers (user_count z1), MigratingGoals]
              in case meta_data of
                   JObj md \<Rightarrow>
                     (case migrate_goals md zero_state of
                        (Some e, z3) \<Rightarrow>
                          (Some e, \<lparr>db = ensure_tables (db w), stdout = pre2\<rparr>)
                      | (None, z3) \<Rightarrow>
                          (None,
                           \<lparr>db = \<lparr>user_profiles = Some (P ++ profiles z1),
                                   daily_goals = Some (G ++ goals z3)\<rparr>,
                            stdout = pre2 @ [MigratedGoals (goal_count z3),
                                             MigrationComplete]\<rparr>))
                 | _ \<Rightarrow> (Some AttributeError, \<lparr>db = ensure_tables (db w), stdout = pre2\<rparr>)))"

text \<open>A file system with a single entry.\<close>

definition fs_with :: "string \<Rightarrow> fs_entry \<Rightarrow> string \<Rightarrow> fs_entry" where
  "fs_with path e p = (if p = path then e else Missing)"

text \<open>\<^verbatim>\<open>isinstance(v, dict)\<close>.\<close>

fun is_dict :: "json \<Rightarrow> bool" where
  "is_dict (JObj kvs) = True"
| "is_dict v = False"

text \<open>
  Two results of a loop agree up to the notices about a key \<open>k\<close>: the same exception
  or none, the same rows and counts, the same text once those notices are left out.
\<close>

definition agree :: "string \<Rightarrow> py_error option \<times> run_state \<Rightarrow> py_error option \<times> run_state \<Rightarrow> bool" where
  "agree k a b =
     (fst a = fst b \<and> profiles (snd a) = profiles (snd b) \<and> goals (snd a) = goals (snd b)
      \<and> user_count (snd a) = user_count (snd b) \<and> goal_count (snd a) = goal_count (snd b)
      \<and> filter (\<lambda>m. m \<noteq> SkippingInvalidGuild k) (out (snd a))
          = filter (\<lambda>m. m \<noteq> SkippingInvalidGuild k) (out (snd b)))"

text \<open>The value a table holds in the row of a key, in a column.\<close>

definition cell :: "table \<Rightarrow> sqlval list \<Rightarrow> string \<Rightarrow> sqlval option" where
  "cell t k c = (case t k of None \<Rightarrow> None | Some r \<Rightarrow> map_of r c)"

text \<open>
  The defaults the specification documents for a user profile, column by column; the
  serialized empty array is the text \<^verbatim>\<open>[]\<close>.
\<close>

definition documented_defaults :: "(string \<times> sqlval) list" where
  "documented_defaults =
     [(''level'', SInt 1), (''total_xp'', SInt 0), (''xp_to_next_level'', SInt 100),
      (''best_rank'', SInt 999), (''previous_rank'', SInt 999), (''rank_improvement'', SInt 0),
      (''total_commands_used'', SInt 0), (''total_messages'', SInt 0),
      (''daily_streak'', SInt 0), (''images_shared'', SInt 0), (''long_messages'', SInt 0),
      (''links_shared'', SInt 0), (''goals_completed'', SInt 0), (''boost_days'', SInt 0),
      (''achievements'', SText ''[]''), (''xp_history'', SText ''[]'')]"

text \<open>
  A JSON text that denotes an array opens with a bracket and closes with one.
\<close>

definition denotes_array :: "string \<Rightarrow> bool" where
  "denotes_array t = (t \<noteq> [] \<and> hd t = CHR ''['' \<and> last t = CHR '']'')"

text \<open>
  The guilds whose daily goal a run upserts: the keys of the metadata section that coerce
  to an integer and carry a truthy \<^verbatim>\<open>daily_goal\<close>.
\<close>

definition upserted_goal_guilds :: "pydict \<Rightarrow> int list" where
  "upserted_goal_guilds md =
     concat (map (\<lambda>(k, v). case py_int k of
                          None \<Rightarrow> []
                        | Some g \<Rightarrow>
                            (case v of
                               JObj gm \<Rightarrow>
                                 if truthy (dict_get gm ''daily_goal'' JNull) then [g] else []
                             | _ \<Rightarrow> [])) md)"

definition goal_guilds :: "json \<Rightarrow> int list" where
  "goal_guilds data =
     (case data of
        JObj d0 \<Rightarrow>
          (case dict_get d0 ''__meta__'' (JObj []) of
             JObj md \<Rightarrow> upserted_goal_guilds md
           | _ \<Rightarrow> [])
      | _ \<Rightarrow> [])"

text \<open>The row the store holds for the daily goal of a guild, if any.\<close>

definition goal_row :: "store \<Rightarrow> int \<Rightarrow> row option" where
  "goal_row st g = (case daily_goals st of None \<Rightarrow> None | Some t \<Rightarrow> t [SInt g])"

text \<open>
  The user records of the progression section that survive both coercions, as
  (user id, guild id, record), in the order the loops meet them.
\<close>

definition guild_records :: "int \<Rightarrow> pydict \<Rightarrow> (int \<times> int \<times> json) list" where
  "guild_records g us =
     concat (map (\<lambda>(uk, ud). case py_int uk of None \<Rightarrow> [] | Some u \<Rightarrow> [(u, g, ud)]) us)"

definition migrated_records :: "pydict \<Rightarrow> (int \<times> int \<times> json) list" where
  "migrated_records d =
     concat (map (\<lambda>(gk, users). case py_int gk of
                                   None \<Rightarrow> []
                                 | Some g \<Rightarrow>
                                     (case users of
                                        JObj us \<Rightarrow> guild_records g us
                                      | _ \<Rightarrow> [])) d)"

definition progression :: "json \<Rightarrow> pydict" where
  "progression data = (case data of JObj d0 \<Rightarrow> guild_entries d0 | _ \<Rightarrow> [])"

text \<open>The primary key under which a record is upserted.\<close>

definition profile_key :: "int \<times> int \<times> json \<Rightarrow> sqlval list" where
  "profile_key rec = [SInt (fst rec), SInt (fst (snd rec))]"

text \<open>
  What a run of the user loops does to the table, key by key: a key of some record holds a
  row built from one record of that key and from nothing else; any other key holds what it
  held before.
\<close>

definition settled :: "(int \<times> int \<times> json) list \<Rightarrow> table \<Rightarrow> table \<Rightarrow> bool" where
  "settled recs t t' =
     (\<forall>k. (\<exists>u g d r. (u, g, JObj d) \<in> set recs \<and> k = [SInt u, SInt g] \<and> t' k = Some r
                \<and> make_row user_profiles_schema (user_params u g d) = Inr r)
          \<or> (k \<notin> profile_key ` set recs \<and> t' k = t k))"

section \<open>Rows\<close>

lemma bind_params_length: "bind_params ps = Inr vs \<Longrightarrow> length vs = length ps"
  by (induction ps arbitrary: vs) (auto split: sum.splits)

lemma bind_params_nth:
  "bind_params ps = Inr vs \<Longrightarrow> i < length ps \<Longrightarrow> bind_param (ps ! i) = Inr (vs ! i)"
proof (induction ps arbitrary: vs i)
  case Nil
  then show ?case by simp
next
  case (Cons p ps)
  then show ?case by (cases i) (auto split: sum.splits)
qed

lemma store_row_names:
  "store_row cs vs = Inr r \<Longrightarrow> length vs = length cs \<Longrightarrow> map fst r = map cname cs"
  by (induction cs vs arbitrary: r rule: store_row.induct) (auto split: sum.splits)

lemma store_row_nth:
  "store_row cs vs = Inr r \<Longrightarrow> length vs = length cs \<Longrightarrow> i < length cs \<Longrightarrow>
   store_value (cs ! i) (vs ! i) = Inr (snd (r ! i))"
proof (induction cs vs arbitrary: r i rule: store_row.induct)
  case (1 c cs v vs)
  then show ?case by (cases i) (auto split: sum.splits)
qed auto

lemma map_of_nth_distinct:
  "distinct (map fst r) \<Longrightarrow> i < length r \<Longrightarrow> map_of r (fst (r ! i)) = Some (snd (r ! i))"
  by (metis map_of_eq_Some_iff nth_mem prod.collapse)

lemma make_row_cell:
  assumes "make_row td ps = Inr r"
    and "length ps = length (columns td)"
    and "distinct (map cname (columns td))"
    and "i < length ps"
  shows "\<exists>v. stored (columns td ! i) (ps ! i) = Inr v \<and> map_of r (cname (columns td ! i)) = Some v"
proof -
  from assms(1) obtain vs where b: "bind_params ps = Inr vs"
    and s: "store_row (columns td) vs = Inr r"
    by (auto simp: make_row_def split: sum.splits)
  have len: "length vs = length (columns td)"
    using bind_params_length [OF b] assms(2) by simp
  have names: "map fst r = map cname (columns td)"
    using store_row_names [OF s len] .
  have lr: "length r = length (columns td)"
    using names by (metis length_map)
  have i: "i < length (columns td)" using assms(2,4) by simp
  have "fst (r ! i) = cname (columns td ! i)"
    using names i lr by (metis nth_map)
  moreover have "distinct (map fst r)" using names assms(3) by simp
  ultimately have m: "map_of r (cname (columns td ! i)) = Some (snd (r ! i))"
    using map_of_nth_distinct [of r i] i lr by simp
  have "stored (columns td ! i) (ps ! i) = Inr (snd (r ! i))"
    using bind_params_nth [OF b assms(4)] store_row_nth [OF s len i]
    by (simp add: stored_def)
  with m show ?thesis by blast
qed

lemma user_params_length: "length (user_params u g d) = 21"
  by (simp add: user_params_def Let_def)

lemma user_columns_length: "length (columns user_profiles_schema) = 21"
  by (simp add: user_profiles_schema_def)

lemma user_columns_distinct: "distinct (map cname (columns user_profiles_schema))"
  by (simp add: user_profiles_schema_def col_def)

lemma user_cell:
  assumes "make_row user_profiles_schema (user_params u g d) = Inr r" and "i < 21"
  shows "\<exists>v. stored (columns user_profiles_schema ! i) (user_params u g d ! i) = Inr v
           \<and> map_of r (cname (columns user_profiles_schema ! i)) = Some v"
  using make_row_cell [OF assms(1) _ user_columns_distinct, of i] assms(2)
  by (simp add: user_params_length user_columns_length)

lemma user_key:
  assumes "make_row user_profiles_schema (user_params u g d) = Inr r"
  shows "key_of user_profiles_schema r = [SInt u, SInt g]"
proof -
  have "map_of r ''user_id'' = Some (SInt u)"
    using user_cell [OF assms, of 0]
    by (auto simp: user_profiles_schema_def user_params_def Let_def col_def stored_def store_value_def
        split: if_splits)
  moreover have "map_of r ''guild_id'' = Some (SInt g)"
    using user_cell [OF assms, of 1]
    by (auto simp: user_profiles_schema_def user_params_def Let_def col_def stored_def store_value_def
        split: if_splits)
  ultimately show ?thesis by (simp add: key_of_def user_profiles_schema_def)
qed

section \<open>The loops on top of an arbitrary state\<close>

lemma insert_or_replace_add:
  "insert_or_replace td ps (b ++ t) =
     (case insert_or_replace td ps t of Inl e \<Rightarrow> Inl e | Inr t' \<Rightarrow> Inr (b ++ t'))"
  by (simp add: insert_or_replace_def split: sum.splits)

lemma migrate_users_shift:
  "migrate_users g us (shift P G uc gc pre s) =
     (case migrate_users g us s of (e, s') \<Rightarrow> (e, shift P G uc gc pre s'))"
proof (induction us arbitrary: s)
  case Nil
  then show ?case by simp
next
  case (Cons a us)
  obtain k v where a: "a = (k, v)" by (cases a)
  have upd: "\<And>t. (shift P G uc gc pre s)\<lparr>profiles := P ++ t,
                 user_count := Suc (user_count (shift P G uc gc pre s))\<rparr>
            = shift P G uc gc pre (s\<lparr>profiles := t, user_count := Suc (user_count s)\<rparr>)"
    by (simp add: shift_def)
  have prof: "profiles (shift P G uc gc pre s) = P ++ profiles s"
    by (simp add: shift_def)
  show ?case
    unfolding a
    by (simp add: prof insert_or_replace_add upd Cons.IH
        split: option.splits json.splits sum.splits)
qed

lemma migrate_users_frame:
  "migrate_users g us s = (e, s') \<Longrightarrow>
     goals s' = goals s \<and> goal_count s' = goal_count s \<and> out s' = out s"
proof (induction us arbitrary: s)
  case Nil
  then show ?case by simp
next
  case (Cons a us)
  obtain k v where a: "a = (k, v)" by (cases a)
  from Cons.prems show ?case
    unfolding a
    by (auto split: option.splits json.splits sum.splits dest!: Cons.IH)
qed

lemma print_shift: "print m (shift P G uc gc pre s) = shift P G uc gc pre (print m s)"
  by (simp add: print_def shift_def)

lemma migrate_guilds_shift:
  "migrate_guilds d (shift P G uc gc pre s) =
     (case migrate_guilds d s of (e, s') \<Rightarrow> (e, shift P G uc gc pre s'))"
proof (induction d arbitrary: s)
  case Nil
  then show ?case by simp
next
  case (Cons a d)
  obtain k v where a: "a = (k, v)" by (cases a)
  show ?case
    unfolding a
    by (simp add: print_shift migrate_users_shift Cons.IH
        split: option.splits json.splits prod.splits)
qed

lemma migrate_guilds_frame:
  "migrate_guilds d s = (e, s') \<Longrightarrow> goals s' = goals s \<and> goal_count s' = goal_count s"
proof (induction d arbitrary: s)
  case Nil
  then show ?case by simp
next
  case (Cons a d)
  obtain k v where a: "a = (k, v)" by (cases a)
  from Cons.prems show ?case
    unfolding a
    by (auto simp: print_def split: option.splits json.splits prod.splits
        dest!: Cons.IH migrate_users_frame)
qed

lemma migrate_goals_shift:
  "migrate_goals md (shift P G uc gc pre s) =
     (case migrate_goals md s of (e, s') \<Rightarrow> (e, shift P G uc gc pre s'))"
proof (induction md arbitrary: s)
  case Nil
  then show ?case by simp
next
  case (Cons a md)
  obtain k v where a: "a = (k, v)" by (cases a)
  have upd: "\<And>t. (shift P G uc gc pre s)\<lparr>goals := G ++ t,
                 goal_count := Suc (goal_count (shift P G uc gc pre s))\<rparr>
            = shift P G uc gc pre (s\<lparr>goals := t, goal_count := Suc (goal_count s)\<rparr>)"
    by (simp add: shift_def)
  have gl: "goals (shift P G uc gc pre s) = G ++ goals s"
    by (simp add: shift_def)
  show ?case
    unfolding a
    by (simp add: gl insert_or_replace_add upd Cons.IH Let_def
        split: option.splits json.splits sum.splits)
qed

lemma migrate_goals_frame:
  "migrate_goals md s = (e, s') \<Longrightarrow>
     profiles s' = profiles s \<and> user_count s' = user_count s \<and> out s' = out s"
proof (induction md arbitrary: s)
  case Nil
  then show ?case by simp
next
  case (Cons a md)
  obtain k v where a: "a = (k, v)" by (cases a)
  from Cons.prems show ?case
    unfolding a
    by (auto simp: Let_def split: option.splits json.splits sum.splits if_splits dest!: Cons.IH)
qed

lemma migrate_guilds_zero:
  assumes "migrate_guilds d zero_state = (e, z1)"
  shows "goals z1 = Map.empty" and "goal_count z1 = 0"
  using migrate_guilds_frame [OF assms] by (simp_all add: zero_state_def)

lemma migrate_goals_zero:
  assumes "migrate_goals md zero_state = (e, z3)"
  shows "profiles z3 = Map.empty" and "user_count z3 = 0" and "out z3 = []"
  using migrate_goals_frame [OF assms] by (simp_all add: zero_state_def)

lemma migrate_data_normal_form:
  "migrate_data (JObj d0) p w =
     outcome (migrate_guilds (guild_entries d0) zero_state)
       (dict_get d0 ''__meta__'' (JObj [])) p w"
proof -
  define pre where "pre = stdout w @ [Connecting p, MigratingUsers]"
  define P where "P = create_if_not_exists (user_profiles (db w))"
  define G where "G = create_if_not_exists (daily_goals (db w))"
  define s0 where "s0 = \<lparr>profiles = P, goals = G, user_count = 0, goal_count = 0, out = pre\<rparr>"
  obtain e1 z1 where g: "migrate_guilds (guild_entries d0) zero_state = (e1, z1)"
    by (cases "migrate_guilds (guild_entries d0) zero_state")
  have s0: "s0 = shift P G 0 0 pre zero_state"
    by (simp add: s0_def shift_def zero_state_def)
  have g0: "migrate_guilds (guild_entries d0) s0 = (e1, shift P G 0 0 pre z1)"
    by (simp add: s0 migrate_guilds_shift g)
  have unfold: "migrate_data (JObj d0) p w =
      (case migrate_guilds (guild_entries d0) s0 of
         (Some e, s1) \<Rightarrow> raised e w s1
       | (None, s1) \<Rightarrow>
           (let s2 = print MigratingGoals (print (MigratedUsers (user_count s1)) s1)
            in case dict_get d0 ''__meta__'' (JObj []) of
                 JObj md \<Rightarrow>
                   (case migrate_goals md s2 of
                      (Some e, s3) \<Rightarrow> raised e w s3
                    | (None, s3) \<Rightarrow>
                        (None,
                         \<lparr>db = \<lparr>user_profiles = Some (profiles s3),
                                 daily_goals = Some (goals s3)\<rparr>,
                          stdout = out s3 @ [MigratedGoals (goal_count s3),
                                             MigrationComplete]\<rparr>))
               | _ \<Rightarrow> raised AttributeError w s2))"
    by (simp add: migrate_data_def dict_pop_def Let_def guild_entries_def s0_def P_def G_def
        pre_def say_def ensure_tables_def create_if_not_exists_def)
  show ?thesis
  proof (cases e1)
    case (Some e)
    then show ?thesis
      using g g0 by (simp add: unfold outcome_def raised_def shift_def Let_def pre_def)
  next
    case None
    define pre2 where "pre2 = pre @ out z1 @ [MigratedUsers (user_count z1), MigratingGoals]"
    define s2 where "s2 = print MigratingGoals
        (print (MigratedUsers (user_count (shift P G 0 0 pre z1))) (shift P G 0 0 pre z1))"
    have s2: "s2 = shift (P ++ profiles z1) G (user_count z1) 0 pre2 zero_state"
      using migrate_guilds_zero [OF g]
      by (simp add: s2_def print_def shift_def zero_state_def pre2_def)
    have out_s2: "out s2 = pre2"
      by (simp add: s2 shift_def zero_state_def)
    have step: "migrate_data (JObj d0) p w =
        (case dict_get d0 ''__meta__'' (JObj []) of
           JObj md \<Rightarrow>
             (case migrate_goals md s2 of
                (Some e, s3) \<Rightarrow> raised e w s3
              | (None, s3) \<Rightarrow>
                  (None,
                   \<lparr>db = \<lparr>user_profiles = Some (profiles s3),
                           daily_goals = Some (goals s3)\<rparr>,
                    stdout = out s3 @ [MigratedGoals (goal_count s3),
                                       MigrationComplete]\<rparr>))
         | _ \<Rightarrow> raised AttributeError w s2)"
      unfolding s2_def by (simp add: unfold g0 None Let_def)
    have rhs: "migrate_guilds (guild_entries d0) zero_state = (None, z1)"
      using g None by simp
    show ?thesis
    proof (cases "dict_get d0 ''__meta__'' (JObj [])")
      case (JObj md)
      obtain e3 z3 where m: "migrate_goals md zero_state = (e3, z3)"
        by (cases "migrate_goals md zero_state")
      have m2: "migrate_goals md s2 = (e3, shift (P ++ profiles z1) G (user_count z1) 0 pre2 z3)"
        by (simp add: s2 migrate_goals_shift m)
      show ?thesis
        using migrate_goals_zero [OF m]
        by (cases e3)
           (simp_all add: step JObj m2 rhs m outcome_def raised_def shift_def Let_def
              pre_def [symmetric] P_def [symmetric] G_def [symmetric] pre2_def [symmetric])
    qed (simp_all add: step rhs outcome_def raised_def out_s2 Let_def
           pre_def [symmetric] pre2_def [symmetric])
  qed
qed

lemma map_add_twice: "(P ++ m) ++ m = P ++ (m :: 'a \<rightharpoonup> 'b)"
  by (rule ext) (simp add: map_add_def split: option.splits)

lemma ensure_tables_twice: "ensure_tables (ensure_tables st) = ensure_tables st"
  by (simp add: ensure_tables_def create_if_not_exists_def)

lemma migrate_data_again:
  assumes "db w2 = db (snd (migrate_data data p w))"
  shows "fst (migrate_data data p w2) = fst (migrate_data data p w)
       \<and> db (snd (migrate_data data p w2)) = db (snd (migrate_data data p w))"
proof (cases data)
  case (JObj d0)
  obtain e1 z1 where g: "migrate_guilds (guild_entries d0) zero_state = (e1, z1)"
    by (cases "migrate_guilds (guild_entries d0) zero_state")
  show ?thesis
  proof (cases e1)
    case (Some e)
    then show ?thesis
      using assms g
      by (simp add: JObj migrate_data_normal_form outcome_def Let_def ensure_tables_twice)
  next
    case None
    show ?thesis
    proof (cases "dict_get d0 ''__meta__'' (JObj [])")
      case (JObj md)
      obtain e3 z3 where m: "migrate_goals md zero_state = (e3, z3)"
        by (cases "migrate_goals md zero_state")
      show ?thesis
        using assms g None JObj m
        by (cases e3)
           (simp_all add: \<open>data = JObj d0\<close> migrate_data_normal_form outcome_def Let_def
              ensure_tables_twice create_if_not_exists_def map_add_twice)
    qed (use assms g None in \<open>simp_all add: JObj migrate_data_normal_form outcome_def Let_def
           ensure_tables_twice\<close>)
  qed
qed (use assms in \<open>simp_all add: migrate_data_def\<close>)

lemma migrate_levels_again:
  "fst (migrate_levels fs jp dp (snd (migrate_levels fs jp dp w))) = fst (migrate_levels fs jp dp w)
   \<and> db (snd (migrate_levels fs jp dp (snd (migrate_levels fs jp dp w))))
       = db (snd (migrate_levels fs jp dp w))"
proof (cases "fs jp")
  case (Regular content)
  show ?thesis
  proof (cases content)
    case None
    then show ?thesis by (simp add: migrate_levels_def Regular say_def)
  next
    case (Some data)
    have "db (say (Loading jp) (snd (migrate_data data dp (say (Loading jp) w))))
            = db (snd (migrate_data data dp (say (Loading jp) w)))"
      by (simp add: say_def)
    from migrate_data_again [OF this] show ?thesis
      by (simp add: migrate_levels_def Regular Some)
  qed
qed (simp_all add: migrate_levels_def say_def)

section \<open>Skipped keys\<close>

lemmas py_int_eval = py_int_def strip_def is_space_def is_digit_def digit_val_def

lemma py_int_reserved: "py_int ''__meta__'' = None" "py_int ''__legacy__'' = None"
  by (simp_all add: py_int_def strip_def is_space_def is_digit_def)

lemma migrate_guilds_nondict:
  "py_int k = Some g \<Longrightarrow> \<not> is_dict v \<Longrightarrow>
     migrate_guilds (xs @ (k, v) # ys) s = migrate_guilds (xs @ ys) s"
proof (induction xs arbitrary: s)
  case Nil
  then show ?case by (cases v) simp_all
next
  case (Cons a xs)
  obtain k' v' where a: "a = (k', v')" by (cases a)
  show ?case
    unfolding a using Cons.prems
    by (simp add: Cons.IH split: option.splits json.splits prod.splits)
qed

lemma guild_entries_append: "guild_entries (xs @ ys) = guild_entries xs @ guild_entries ys"
  by (simp add: guild_entries_def)

lemma guild_entries_Cons:
  "guild_entries ((k, v) # ys) =
     (if k = ''__meta__'' \<or> k = ''__legacy__'' then guild_entries ys
      else (k, v) # guild_entries ys)"
  by (simp add: guild_entries_def)

lemma dict_get_skip:
  "k \<noteq> f \<Longrightarrow> dict_get (xs @ (k, v) # ys) f dv = dict_get (xs @ ys) f dv"
  by (simp add: dict_get_def map_add_def split: option.splits)

lemma dict_get_change:
  "k \<noteq> f \<Longrightarrow> dict_get (xs @ (k, v) # ys) f dv = dict_get (xs @ (k, v') # ys) f dv"
  by (simp add: dict_get_def map_add_def split: option.splits)

lemma state_as_shift:
  "s = shift (profiles s) (goals s) (user_count s) (goal_count s) (out s) zero_state"
  by (simp add: shift_def zero_state_def)

lemma migrate_guilds_agree:
  assumes "agree k (e, s) (e, s')"
  shows "agree k (migrate_guilds d s) (migrate_guilds d s')"
proof -
  obtain e1 z1 where z: "migrate_guilds d zero_state = (e1, z1)"
    by (cases "migrate_guilds d zero_state")
  have a: "migrate_guilds d s
      = (e1, shift (profiles s) (goals s) (user_count s) (goal_count s) (out s) z1)"
    using migrate_guilds_shift [of d "profiles s" "goals s" "user_count s" "goal_count s"
        "out s" zero_state] z state_as_shift [of s] by simp
  have b: "migrate_guilds d s'
      = (e1, shift (profiles s') (goals s') (user_count s') (goal_count s') (out s') z1)"
    using migrate_guilds_shift [of d "profiles s'" "goals s'" "user_count s'" "goal_count s'"
        "out s'" zero_state] z state_as_shift [of s'] by simp
  show ?thesis
    using assms by (simp add: a b agree_def shift_def)
qed

lemma agree_refl: "agree k a a"
  by (simp add: agree_def)

lemma migrate_guilds_skip:
  assumes "py_int k = None"
  shows "agree k (migrate_guilds (xs @ (k, v) # ys) s) (migrate_guilds (xs @ ys) s)"
proof (induction xs arbitrary: s)
  case Nil
  have "agree k (None, print (SkippingInvalidGuild k) s) (None, s)"
    by (simp add: agree_def print_def)
  from migrate_guilds_agree [OF this] show ?case
    using assms by simp
next
  case (Cons a xs)
  obtain k' v' where a: "a = (k', v')" by (cases a)
  show ?case
    unfolding a
    by (simp add: Cons.IH agree_refl split: option.splits json.splits prod.splits)
qed

lemma migrate_users_skip:
  "py_int k = None \<Longrightarrow> migrate_users g (xs @ (k, v) # ys) s = migrate_users g (xs @ ys) s"
proof (induction xs arbitrary: s)
  case Nil
  then show ?case by simp
next
  case (Cons a xs)
  obtain k' v' where a: "a = (k', v')" by (cases a)
  show ?case
    unfolding a using Cons.prems
    by (simp add: Cons.IH split: option.splits json.splits sum.splits)
qed

lemma migrate_goals_skip:
  "py_int k = None \<Longrightarrow> migrate_goals (xs @ (k, v) # ys) s = migrate_goals (xs @ ys) s"
proof (induction xs arbitrary: s)
  case Nil
  then show ?case by simp
next
  case (Cons a xs)
  obtain k' v' where a: "a = (k', v')" by (cases a)
  show ?case
    unfolding a using Cons.prems
    by (simp add: Cons.IH Let_def split: option.splits json.splits sum.splits)
qed

lemma migrate_guilds_user_skip:
  "py_int k = None \<Longrightarrow>
     migrate_guilds (xs @ (gk, JObj (us @ (k, v) # vs)) # ys) s
       = migrate_guilds (xs @ (gk, JObj (us @ vs)) # ys) s"
proof (induction xs arbitrary: s)
  case Nil
  then show ?case by (simp add: migrate_users_skip split: option.splits)
next
  case (Cons a xs)
  obtain k' v' where a: "a = (k', v')" by (cases a)
  show ?case
    unfolding a using Cons.prems
    by (simp add: Cons.IH split: option.splits json.splits prod.splits)
qed

lemma dict_get_first:
  assumes "f \<notin> fst ` set xs"
  shows "dict_get (xs @ (f, v) # ys) f dv = v"
proof -
  have "map_of xs f = None" using assms by (simp add: map_of_eq_None_iff)
  then show ?thesis by (simp add: dict_get_def map_add_def)
qed

lemma outcome_meta_skip:
  assumes "py_int k = None"
  shows "outcome a (JObj (ms @ (k, v) # ns)) p w = outcome a (JObj (ms @ ns)) p w"
proof -
  obtain e1 z1 where a: "a = (e1, z1)" by (cases a)
  show ?thesis
    by (cases e1) (simp_all add: a outcome_def Let_def migrate_goals_skip [OF assms])
qed

lemma outcome_agree:
  assumes "agree k a b"
  shows "fst (outcome a meta_data p w) = fst (outcome b meta_data p w)
       \<and> db (snd (outcome a meta_data p w)) = db (snd (outcome b meta_data p w))
       \<and> filter (\<lambda>m. m \<noteq> SkippingInvalidGuild k) (stdout (snd (outcome a meta_data p w)))
           = filter (\<lambda>m. m \<noteq> SkippingInvalidGuild k) (stdout (snd (outcome b meta_data p w)))"
proof -
  obtain e1 z1 where a: "a = (e1, z1)" by (cases a)
  obtain e2 z2 where b: "b = (e2, z2)" by (cases b)
  from assms have e: "e2 = e1" and pr: "profiles z2 = profiles z1"
    and uc: "user_count z2 = user_count z1"
    and ou: "filter (\<lambda>m. m \<noteq> SkippingInvalidGuild k) (out z1)
              = filter (\<lambda>m. m \<noteq> SkippingInvalidGuild k) (out z2)"
    by (simp_all add: agree_def a b)
  show ?thesis
  proof (cases e1)
    case (Some x)
    then show ?thesis using ou by (simp add: a b e outcome_def Let_def)
  next
    case None
    show ?thesis
    proof (cases meta_data)
      case (JObj md)
      obtain e3 z3 where m: "migrate_goals md zero_state = (e3, z3)"
        by (cases "migrate_goals md zero_state")
      show ?thesis
        using ou by (cases e3) (simp_all add: a b e None JObj m pr uc outcome_def Let_def)
    qed (use ou in \<open>simp_all add: a b e None uc outcome_def Let_def\<close>)
  qed
qed

lemma col_sel [simp]: "cname (col n nn d) = n" "not_null (col n nn d) = nn" "dflt (col n nn d) = d"
  by (simp_all add: col_def)

lemma user_column:
  assumes "make_row user_profiles_schema (user_params u g d) = Inr r" and "i < 21"
    and "stored (columns user_profiles_schema ! i) (user_params u g d ! i) = Inr x"
  shows "map_of r (cname (columns user_profiles_schema ! i)) = Some x"
  using user_cell [OF assms(1,2)] assms(3) by auto

lemma user_row_defaults:
  assumes mk: "make_row user_profiles_schema (user_params u g d) = Inr r"
    and f: "(f, x) \<in> set documented_defaults" and absent: "map_of d f = None"
  shows "map_of r f = Some x"
proof -
  note s = user_profiles_schema_def user_params_def Let_def dict_get_def stored_def
    store_value_def
  have c0: "f = ''level'' \<Longrightarrow> map_of r ''level'' = Some (SInt 1)"
    using user_column [OF mk, of 2 "SInt 1"] absent by (simp add: s)
  have c1: "f = ''total_xp'' \<Longrightarrow> map_of r ''total_xp'' = Some (SInt 0)"
    using user_column [OF mk, of 3 "SInt 0"] absent by (simp add: s)
  have c2: "f = ''xp_to_next_level'' \<Longrightarrow> map_of r ''xp_to_next_level'' = Some (SInt 100)"
    using user_column [OF mk, of 4 "SInt 100"] absent by (simp add: s)
  have c3: "f = ''best_rank'' \<Longrightarrow> map_of r ''best_rank'' = Some (SInt 999)"
    using user_column [OF mk, of 11 "SInt 999"] absent by (simp add: s)
  have c4: "f = ''previous_rank'' \<Longrightarrow> map_of r ''previous_rank'' = Some (SInt 999)"
    using user_column [OF mk, of 12 "SInt 999"] absent by (simp add: s)
  have c5: "f = ''rank_improvement'' \<Longrightarrow> map_of r ''rank_improvement'' = Some (SInt 0)"
    using user_column [OF mk, of 13 "SInt 0"] absent by (simp add: s)
  have c6: "f = ''total_commands_used'' \<Longrightarrow> map_of r ''total_commands_used'' = Some (SInt 0)"
    using user_column [OF mk, of 5 "SInt 0"] absent by (simp add: s)
  have c7: "f = ''total_messages'' \<Longrightarrow> map_of r ''total_messages'' = Some (SInt 0)"
    using user_column [OF mk, of 6 "SInt 0"] absent by (simp add: s)
  have c8: "f = ''daily_streak'' \<Longrightarrow> map_of r ''daily_streak'' = Some (SInt 0)"
    using user_column [OF mk, of 8 "SInt 0"] absent by (simp add: s)
  have c9: "f = ''images_shared'' \<Longrightarrow> map_of r ''images_shared'' = Some (SInt 0)"
    using user_column [OF mk, of 14 "SInt 0"] absent by (simp add: s)
  have c10: "f = ''long_messages'' \<Longrightarrow> map_of r ''long_messages'' = Some (SInt 0)"
    using user_column [OF mk, of 15 "SInt 0"] absent by (simp add: s)
  have c11: "f = ''links_shared'' \<Longrightarrow> map_of r ''links_shared'' = Some (SInt 0)"
    using user_column [OF mk, of 16 "SInt 0"] absent by (simp add: s)
  have c12: "f = ''goals_completed'' \<Longrightarrow> map_of r ''goals_completed'' = Some (SInt 0)"
    using user_column [OF mk, of 17 "SInt 0"] absent by (simp add: s)
  have c13: "f = ''boost_days'' \<Longrightarrow> map_of r ''boost_days'' = Some (SInt 0)"
    using user_column [OF mk, of 18 "SInt 0"] absent by (simp add: s)
  have c14: "f = ''achievements'' \<Longrightarrow> map_of r ''achievements'' = Some (SText ''[]'')"
    using user_column [OF mk, of 10 "SText ''[]''"] absent by (simp add: s)
  have c15: "f = ''xp_history'' \<Longrightarrow> map_of r ''xp_history'' = Some (SText ''[]'')"
    using user_column [OF mk, of 20 "SText ''[]''"] absent by (simp add: s)
  from f have "f = ''level'' \<and> x = SInt 1 \<or> f = ''total_xp'' \<and> x = SInt 0 \<or> f = ''xp_to_next_level'' \<and> x = SInt 100 \<or> f = ''best_rank'' \<and> x = SInt 999 \<or> f = ''previous_rank'' \<and> x = SInt 999 \<or> f = ''rank_improvement'' \<and> x = SInt 0 \<or> f = ''total_commands_used'' \<and> x = SInt 0 \<or> f = ''total_messages'' \<and> x = SInt 0 \<or> f = ''daily_streak'' \<and> x = SInt 0 \<or> f = ''images_shared'' \<and> x = SInt 0 \<or> f = ''long_messages'' \<and> x = SInt 0 \<or> f = ''links_shared'' \<and> x = SInt 0 \<or> f = ''goals_completed'' \<and> x = SInt 0 \<or> f = ''boost_days'' \<and> x = SInt 0 \<or> f = ''achievements'' \<and> x = SText ''[]'' \<or> f = ''xp_history'' \<and> x = SText ''[]''"
    by (simp add: documented_defaults_def)
  then show ?thesis
    using c0 c1 c2 c3 c4 c5 c6 c7 c8 c9 c10 c11 c12 c13 c14 c15 by (elim disjE conjE) simp_all
qed

section \<open>Rows written by a single record\<close>

lemma migrate_users_single:
  assumes "py_int uk = Some u" and "migrate_users g [(uk, JObj d)] s = (None, s')"
  shows "\<exists>r. make_row user_profiles_schema (user_params u g d) = Inr r
           \<and> profiles s' = (profiles s)([SInt u, SInt g] \<mapsto> r)
           \<and> user_count s' = user_count s + 1"
  using assms
  by (auto simp: insert_or_replace_def user_key split: sum.splits)

lemma goal_params_length: "length (goal_params g dg) = 7"
  by (simp add: goal_params_def Let_def)

lemma goal_columns_length: "length (columns daily_goals_schema) = 7"
  by (simp add: daily_goals_schema_def)

lemma goal_columns_distinct: "distinct (map cname (columns daily_goals_schema))"
  by (simp add: daily_goals_schema_def)

lemma goal_column:
  assumes "make_row daily_goals_schema (goal_params g dg) = Inr r" and "i < 7"
    and "stored (columns daily_goals_schema ! i) (goal_params g dg ! i) = Inr x"
  shows "map_of r (cname (columns daily_goals_schema ! i)) = Some x"
  using make_row_cell [OF assms(1) _ goal_columns_distinct, of i] assms(2,3)
  by (auto simp: goal_params_length goal_columns_length)

lemma goal_column_ex:
  assumes "make_row daily_goals_schema (goal_params g dg) = Inr r" and "i < 7"
  shows "\<exists>x. stored (columns daily_goals_schema ! i) (goal_params g dg ! i) = Inr x
           \<and> map_of r (cname (columns daily_goals_schema ! i)) = Some x"
  using make_row_cell [OF assms(1) _ goal_columns_distinct, of i] assms(2)
  by (simp add: goal_params_length goal_columns_length)

lemma goal_key:
  assumes "make_row daily_goals_schema (goal_params g dg) = Inr r"
  shows "key_of daily_goals_schema r = [SInt g]"
proof -
  have "map_of r ''guild_id'' = Some (SInt g)"
    using goal_column_ex [OF assms, of 0]
    by (auto simp: daily_goals_schema_def goal_params_def Let_def stored_def store_value_def
        split: if_splits)
  then show ?thesis by (simp add: key_of_def daily_goals_schema_def)
qed

lemma migrate_goals_single:
  assumes "py_int k = Some g" and "dict_get gm ''daily_goal'' JNull = JObj dg" and "dg \<noteq> []"
    and "migrate_goals [(k, JObj gm)] s = (None, s')"
  shows "\<exists>r. make_row daily_goals_schema (goal_params g dg) = Inr r
           \<and> goals s' = (goals s)([SInt g] \<mapsto> r)
           \<and> goal_count s' = goal_count s + 1"
  using assms
  by (auto simp: insert_or_replace_def goal_key Let_def split: sum.splits if_splits)

lemmas row_eval = insert_or_replace_def make_row_def user_params_def goal_params_def
  user_profiles_schema_def daily_goals_schema_def dict_get_def store_value_def key_of_def
  Let_def

lemma bare_record_run:
  "migrate_users 10 [(''1'', JObj [])] zero_state =
     (None, zero_state\<lparr>profiles := [[SInt 1, SInt 10] \<mapsto>
        [(''user_id'', SInt 1), (''guild_id'', SInt 10), (''level'', SInt 1),
         (''total_xp'', SInt 0), (''xp_to_next_level'', SInt 100),
         (''total_commands_used'', SInt 0), (''total_messages'', SInt 0),
         (''last_daily'', SNull), (''daily_streak'', SInt 0),
         (''last_message_timestamp'', SNull), (''achievements'', SText ''[]''),
         (''best_rank'', SInt 999), (''previous_rank'', SInt 999),
         (''rank_improvement'', SInt 0), (''images_shared'', SInt 0),
         (''long_messages'', SInt 0), (''links_shared'', SInt 0),
         (''goals_completed'', SInt 0), (''boost_days'', SInt 0),
         (''first_boost_date'', SNull), (''xp_history'', SText ''[]'')]],
        user_count := 1\<rparr>)"
  by (simp add: row_eval py_int_eval zero_state_def)

lemma completed_run: "fst r = None \<Longrightarrow> r = (None, snd r)"
  by (cases r) simp

section \<open>Daily goals of other guilds\<close>

lemma upserted_goal_guilds_Cons:
  "upserted_goal_guilds ((k, v) # md) =
     (case py_int k of
        None \<Rightarrow> []
      | Some g \<Rightarrow>
          (case v of
             JObj gm \<Rightarrow> if truthy (dict_get gm ''daily_goal'' JNull) then [g] else []
           | _ \<Rightarrow> [])) @ upserted_goal_guilds md"
  by (simp add: upserted_goal_guilds_def)

lemma insert_goal_other:
  assumes "insert_or_replace daily_goals_schema (goal_params g' dg) t = Inr t'" and "g \<noteq> g'"
  shows "t' [SInt g] = t [SInt g]"
  using assms by (auto simp: insert_or_replace_def goal_key split: sum.splits)

lemma migrate_goals_untouched:
  "g \<notin> set (upserted_goal_guilds md) \<Longrightarrow>
     goals (snd (migrate_goals md s)) [SInt g] = goals s [SInt g]"
proof (induction md arbitrary: s)
  case Nil
  then show ?case by simp
next
  case (Cons a md)
  obtain k v where a: "a = (k, v)" by (cases a)
  from Cons.prems have rest: "g \<notin> set (upserted_goal_guilds md)"
    by (simp add: a upserted_goal_guilds_Cons)
  show ?case
  proof (cases "py_int k")
    case None
    then show ?thesis using Cons.IH [OF rest] by (simp add: a)
  next
    case (Some g')
    show ?thesis
    proof (cases v)
      case (JObj gm)
      show ?thesis
      proof (cases "truthy (dict_get gm ''daily_goal'' JNull)")
        case False
        then show ?thesis using Cons.IH [OF rest] by (simp add: a Some JObj Let_def)
      next
        case True
        with Cons.prems have ne: "g \<noteq> g'"
          by (simp add: a upserted_goal_guilds_Cons Some JObj)
        show ?thesis
        proof (cases "dict_get gm ''daily_goal'' JNull")
          case dg: (JObj dg)
          show ?thesis
          proof (cases "insert_or_replace daily_goals_schema (goal_params g' dg) (goals s)")
            case (Inl e)
            then show ?thesis using True by (simp add: a Some JObj dg Let_def)
          next
            case (Inr t)
            have "goals (snd (migrate_goals md (s\<lparr>goals := t, goal_count := goal_count s + 1\<rparr>)))
                [SInt g] = t [SInt g]"
              using Cons.IH [OF rest, of "s\<lparr>goals := t, goal_count := goal_count s + 1\<rparr>"]
              by simp
            then show ?thesis
              using True insert_goal_other [OF Inr ne] by (simp add: a Some JObj dg Inr Let_def)
          qed
        qed (use True in \<open>simp_all add: a Some JObj Let_def\<close>)
      qed
    qed (simp_all add: a Some)
  qed
qed

lemma goal_row_ensure: "goal_row (ensure_tables st) g = goal_row st g"
  by (simp add: goal_row_def ensure_tables_def create_if_not_exists_def split: option.splits)

lemma migrate_data_goal_frame:
  assumes "g \<notin> set (goal_guilds data)"
  shows "goal_row (db (snd (migrate_data data p w))) g = goal_row (db w) g"
proof (cases data)
  case (JObj d0)
  obtain e1 z1 where g1: "migrate_guilds (guild_entries d0) zero_state = (e1, z1)"
    by (cases "migrate_guilds (guild_entries d0) zero_state")
  show ?thesis
  proof (cases e1)
    case (Some e)
    then show ?thesis
      by (simp add: JObj migrate_data_normal_form outcome_def g1 Let_def goal_row_ensure)
  next
    case None
    show ?thesis
    proof (cases "dict_get d0 ''__meta__'' (JObj [])")
      case md: (JObj md)
      obtain e3 z3 where m: "migrate_goals md zero_state = (e3, z3)"
        by (cases "migrate_goals md zero_state")
      have "g \<notin> set (upserted_goal_guilds md)"
        using assms by (simp add: goal_guilds_def JObj md)
      from migrate_goals_untouched [OF this, of zero_state]
      have "goals z3 [SInt g] = goals zero_state [SInt g]" by (simp add: m)
      then have z: "goals z3 [SInt g] = None" by (simp add: zero_state_def)
      show ?thesis
      proof (cases e3)
        case (Some e)
        then show ?thesis
          by (simp add: JObj migrate_data_normal_form outcome_def g1 None md m Let_def
              goal_row_ensure)
      next
        case e3: None
        show ?thesis
          using z
          by (simp add: JObj migrate_data_normal_form outcome_def g1 None md m e3 Let_def
              goal_row_def map_add_def create_if_not_exists_def split: option.splits)
      qed
    qed (simp_all add: JObj migrate_data_normal_form outcome_def g1 None Let_def
           goal_row_ensure)
  qed
qed (simp_all add: migrate_data_def)

section \<open>Where every written row comes from\<close>

lemma settled_Nil: "settled [] t t"
  by (simp add: settled_def)

lemma settled_append:
  assumes "settled xs t t1" and "settled ys t1 t2"
  shows "settled (xs @ ys) t t2"
  unfolding settled_def
proof
  fix k
  from assms(2) consider
      (new) u g d r where "(u, g, JObj d) \<in> set ys" "k = [SInt u, SInt g]" "t2 k = Some r"
        "make_row user_profiles_schema (user_params u g d) = Inr r"
    | (old) "k \<notin> profile_key ` set ys" "t2 k = t1 k"
    unfolding settled_def by blast
  then show "(\<exists>u g d r. (u, g, JObj d) \<in> set (xs @ ys) \<and> k = [SInt u, SInt g] \<and> t2 k = Some r
                \<and> make_row user_profiles_schema (user_params u g d) = Inr r)
          \<or> (k \<notin> profile_key ` set (xs @ ys) \<and> t2 k = t k)"
  proof cases
    case new
    then show ?thesis by auto
  next
    case old
    from assms(1) consider
        (new1) u g d r where "(u, g, JObj d) \<in> set xs" "k = [SInt u, SInt g]" "t1 k = Some r"
          "make_row user_profiles_schema (user_params u g d) = Inr r"
      | (old1) "k \<notin> profile_key ` set xs" "t1 k = t k"
      unfolding settled_def by blast
    then show ?thesis
    proof cases
      case new1
      with old show ?thesis by auto
    next
      case old1
      with old show ?thesis by auto
    qed
  qed
qed

lemma settled_insert:
  assumes "insert_or_replace user_profiles_schema (user_params u g d) t = Inr t'"
  shows "settled [(u, g, JObj d)] t t'"
proof -
  from assms obtain r where mk: "make_row user_profiles_schema (user_params u g d) = Inr r"
    and t': "t' = t([SInt u, SInt g] \<mapsto> r)"
    by (auto simp: insert_or_replace_def user_key split: sum.splits)
  show ?thesis
    unfolding settled_def
  proof
    fix k
    show "(\<exists>u' g' d' r'. (u', g', JObj d') \<in> set [(u, g, JObj d)] \<and> k = [SInt u', SInt g']
              \<and> t' k = Some r'
              \<and> make_row user_profiles_schema (user_params u' g' d') = Inr r')
          \<or> (k \<notin> profile_key ` set [(u, g, JObj d)] \<and> t' k = t k)"
      using mk by (cases "k = [SInt u, SInt g]") (simp_all add: t' profile_key_def)
  qed
qed

lemma guild_records_Cons:
  "guild_records g ((uk, ud) # us) =
     (case py_int uk of None \<Rightarrow> [] | Some u \<Rightarrow> [(u, g, ud)]) @ guild_records g us"
  by (simp add: guild_records_def)

lemma migrated_records_Cons:
  "migrated_records ((gk, users) # d) =
     (case py_int gk of
        None \<Rightarrow> []
      | Some g \<Rightarrow> (case users of JObj us \<Rightarrow> guild_records g us | _ \<Rightarrow> []))
     @ migrated_records d"
  by (simp add: migrated_records_def)

lemma migrate_users_settled:
  "migrate_users g us s = (None, s') \<Longrightarrow>
     settled (guild_records g us) (profiles s) (profiles s')
     \<and> user_count s' = user_count s + length (guild_records g us)"
proof (induction us arbitrary: s)
  case Nil
  then show ?case by (simp add: guild_records_def settled_Nil)
next
  case (Cons a us)
  obtain uk ud where a: "a = (uk, ud)" by (cases a)
  show ?case
  proof (cases "py_int uk")
    case None
    with Cons show ?thesis by (simp add: a guild_records_Cons)
  next
    case (Some u)
    from Cons.prems obtain d t where ud: "ud = JObj d"
      and ins: "insert_or_replace user_profiles_schema (user_params u g d) (profiles s) = Inr t"
      and rest: "migrate_users g us (s\<lparr>profiles := t, user_count := user_count s + 1\<rparr>)
                  = (None, s')"
      by (auto simp: a Some split: json.splits sum.splits)
    from Cons.IH [OF rest]
    have st: "settled (guild_records g us) t (profiles s')"
      and uc: "user_count s' = user_count s + 1 + length (guild_records g us)"
      by simp_all
    from settled_append [OF settled_insert [OF ins] st] uc
    show ?thesis by (simp add: a Some ud guild_records_Cons)
  qed
qed

lemma migrate_guilds_settled:
  "migrate_guilds d s = (None, s') \<Longrightarrow>
     settled (migrated_records d) (profiles s) (profiles s')
     \<and> user_count s' = user_count s + length (migrated_records d)"
proof (induction d arbitrary: s)
  case Nil
  then show ?case by (simp add: migrated_records_def settled_Nil)
next
  case (Cons a d)
  obtain gk users where a: "a = (gk, users)" by (cases a)
  show ?case
  proof (cases "py_int gk")
    case None
    from Cons.prems have "migrate_guilds d (print (SkippingInvalidGuild gk) s) = (None, s')"
      by (simp add: a None)
    from Cons.IH [OF this] show ?thesis
      by (simp add: a None migrated_records_Cons print_def)
  next
    case (Some g)
    show ?thesis
    proof (cases users)
      case (JObj us)
      from Cons.prems obtain s1 where u: "migrate_users g us s = (None, s1)"
        and rest: "migrate_guilds d s1 = (None, s')"
        by (auto simp: a Some JObj split: prod.splits option.splits)
      from migrate_users_settled [OF u] Cons.IH [OF rest]
      show ?thesis
        by (auto simp: a Some JObj migrated_records_Cons intro: settled_append)
    qed (use Cons in \<open>simp_all add: a Some migrated_records_Cons\<close>)
  qed
qed

lemma completed_migration:
  assumes "migrate_data data p w = (None, w')"
  obtains d0 z1 md z3 where "data = JObj d0"
    and "migrate_guilds (guild_entries d0) zero_state = (None, z1)"
    and "dict_get d0 ''__meta__'' (JObj []) = JObj md"
    and "migrate_goals md zero_state = (None, z3)"
    and "db w' = \<lparr>user_profiles =
                    Some (create_if_not_exists (user_profiles (db w)) ++ profiles z1),
                  daily_goals =
                    Some (create_if_not_exists (daily_goals (db w)) ++ goals z3)\<rparr>"
    and "stdout w' = stdout w @ [Connecting p, MigratingUsers] @ out z1
            @ [MigratedUsers (user_count z1), MigratingGoals,
               MigratedGoals (goal_count z3), MigrationComplete]"
proof (cases data)
  case (JObj d0)
  obtain e1 z1 where g1: "migrate_guilds (guild_entries d0) zero_state = (e1, z1)"
    by (cases "migrate_guilds (guild_entries d0) zero_state")
  show ?thesis
  proof (cases e1)
    case (Some e)
    with assms show ?thesis
      by (simp add: JObj migrate_data_normal_form outcome_def g1 Let_def)
  next
    case None
    show ?thesis
    proof (cases "dict_get d0 ''__meta__'' (JObj [])")
      case md: (JObj md)
      obtain e3 z3 where m: "migrate_goals md zero_state = (e3, z3)"
        by (cases "migrate_goals md zero_state")
      show ?thesis
      proof (cases e3)
        case (Some e)
        with assms show ?thesis
          by (simp add: JObj migrate_data_normal_form outcome_def g1 None md m Let_def)
      next
        case e3: None
        from assms have w': "w' = \<lparr>db = \<lparr>user_profiles =
                        Some (create_if_not_exists (user_profiles (db w)) ++ profiles z1),
                      daily_goals =
                        Some (create_if_not_exists (daily_goals (db w)) ++ goals z3)\<rparr>,
              stdout = stdout w @ [Connecting p, MigratingUsers] @ out z1
                @ [MigratedUsers (user_count z1), MigratingGoals,
                   MigratedGoals (goal_count z3), MigrationComplete]\<rparr>"
          by (simp add: JObj migrate_data_normal_form outcome_def g1 None md m e3 Let_def)
        show ?thesis
        proof (rule that [of d0 z1 md z3])
          show "data = JObj d0" by (rule JObj)
          show "migrate_guilds (guild_entries d0) zero_state = (None, z1)"
            using g1 None by simp
          show "dict_get d0 ''__meta__'' (JObj []) = JObj md" by (rule md)
          show "migrate_goals md zero_state = (None, z3)" using m e3 by simp
          show "db w' = \<lparr>user_profiles =
                    Some (create_if_not_exists (user_profiles (db w)) ++ profiles z1),
                  daily_goals =
                    Some (create_if_not_exists (daily_goals (db w)) ++ goals z3)\<rparr>"
            by (simp add: w')
          show "stdout w' = stdout w @ [Connecting p, MigratingUsers] @ out z1
            @ [MigratedUsers (user_count z1), MigratingGoals,
               MigratedGoals (goal_count z3), MigrationComplete]"
            by (simp add: w')
        qed
      qed
    qed (use assms in \<open>simp_all add: JObj migrate_data_normal_form outcome_def g1 None Let_def\<close>)
  qed
qed (use assms in \<open>simp_all add: migrate_data_def\<close>)


lemma settled_written:
  assumes "settled recs t t'" and "(u, g, ud) \<in> set recs"
  shows "\<exists>d r. (u, g, JObj d) \<in> set recs \<and> t' [SInt u, SInt g] = Some r
           \<and> make_row user_profiles_schema (user_params u g d) = Inr r"
proof -
  have "[SInt u, SInt g] \<in> profile_key ` set recs"
    using assms(2) by (force simp: profile_key_def)
  with assms(1) show ?thesis
    unfolding settled_def by (metis list.inject sqlval.inject(1))
qed



section \<open>Evaluating concrete runs\<close>

lemmas run_eval = migrate_levels_def migrate_data_def dict_pop_def say_def print_def raised_def
  ensure_tables_def create_if_not_exists_def empty_store_def fs_with_def

lemmas records_eval = migrated_records_def guild_records_def progression_def guild_entries_def
  profile_key_def

section \<open>Properties of the migration\<close>

text \<open>
  C1. Running the migration twice in sequence on the same input, starting from the empty
  store, leaves the store exactly as one run leaves it, and the second run ends as the
  first did. Every row the second run upserts replaces a row with the same contents. This
  holds for every input, well-formed or not.
\<close>

theorem migrate_levels_idempotent:
  "db (snd (migrate_levels fs json_path db_path
         (snd (migrate_levels fs json_path db_path \<lparr>db = empty_store, stdout = printed\<rparr>))))
     = db (snd (migrate_levels fs json_path db_path \<lparr>db = empty_store, stdout = printed\<rparr>))
   \<and> fst (migrate_levels fs json_path db_path
         (snd (migrate_levels fs json_path db_path \<lparr>db = empty_store, stdout = printed\<rparr>)))
     = fst (migrate_levels fs json_path db_path \<lparr>db = empty_store, stdout = printed\<rparr>)"
  using migrate_levels_again [of fs json_path db_path "\<lparr>db = empty_store, stdout = printed\<rparr>"]
  by simp

text \<open>
  C2. When a user record of the progression section has been written, every optional
  field the record lacks has its documented default in the row: level 1, total_xp 0,
  xp_to_next_level 100, best_rank 999, previous_rank 999, rank_improvement 0, every
  other counter 0, and the two list columns the serialized empty array.
\<close>

theorem missing_fields_take_defaults:
  assumes "py_int user_id_str = Some user_id"
    and "migrate_users guild_id [(user_id_str, JObj user_data)] s = (None, s')"
  shows "(map_of user_data ''level'' = None \<longrightarrow>
            cell (profiles s') [SInt user_id, SInt guild_id] ''level'' = Some (SInt 1))
       \<and> (map_of user_data ''total_xp'' = None \<longrightarrow>
            cell (profiles s') [SInt user_id, SInt guild_id] ''total_xp'' = Some (SInt 0))
       \<and> (map_of user_data ''xp_to_next_level'' = None \<longrightarrow>
            cell (profiles s') [SInt user_id, SInt guild_id] ''xp_to_next_level''
              = Some (SInt 100))
       \<and> (map_of user_data ''best_rank'' = None \<longrightarrow>
            cell (profiles s') [SInt user_id, SInt guild_id] ''best_rank'' = Some (SInt 999))
       \<and> (map_of user_data ''previous_rank'' = None \<longrightarrow>
            cell (profiles s') [SInt user_id, SInt guild_id] ''previous_rank''
              = Some (SInt 999))
       \<and> (map_of user_data ''rank_improvement'' = None \<longrightarrow>
            cell (profiles s') [SInt user_id, SInt guild_id] ''rank_improvement''
              = Some (SInt 0))
       \<and> (map_of user_data ''total_commands_used'' = None \<longrightarrow>
            cell (profiles s') [SInt user_id, SInt guild_id] ''total_commands_used''
              = Some (SInt 0))
       \<and> (map_of user_data ''total_messages'' = None \<longrightarrow>
            cell (profiles s') [SInt user_id, SInt guild_id] ''total_messages'' = Some (SInt 0))
       \<and> (map_of user_data ''daily_streak'' = None \<longrightarrow>
            cell (profiles s') [SInt user_id, SInt guild_id] ''daily_streak'' = Some (SInt 0))
       \<and> (map_of user_data ''images_shared'' = None \<longrightarrow>
            cell (profiles s') [SInt user_id, SInt guild_id] ''images_shared'' = Some (SInt 0))
       \<and> (map_of user_data ''long_messages'' = None \<longrightarrow>
            cell (profiles s') [SInt user_id, SInt guild_id] ''long_messages'' = Some (SInt 0))
       \<and> (map_of user_data ''links_shared'' = None \<longrightarrow>
            cell (profiles s') [SInt user_id, SInt guild_id] ''links_shared'' = Some (SInt 0))
       \<and> (map_of user_data ''goals_completed'' = None \<longrightarrow>
            cell (profiles s') [SInt user_id, SInt guild_id] ''goals_completed''
              = Some (SInt 0))
       \<and> (map_of user_data ''boost_days'' = None \<longrightarrow>
            cell (profiles s') [SInt user_id, SInt guild_id] ''boost_days'' = Some (SInt 0))
       \<and> (map_of user_data ''achievements'' = None \<longrightarrow>
            cell (profiles s') [SInt user_id, SInt guild_id] ''achievements''
              = Some (SText ''[]''))
       \<and> (map_of user_data ''xp_history'' = None \<longrightarrow>
            cell (profiles s') [SInt user_id, SInt guild_id] ''xp_history''
              = Some (SText ''[]''))"
proof -
  from migrate_users_single [OF assms] obtain r
    where mk: "make_row user_profiles_schema (user_params user_id guild_id user_data) = Inr r"
      and p: "profiles s' = (profiles s)([SInt user_id, SInt guild_id] \<mapsto> r)"
    by blast
  have main: "\<And>f x. (f, x) \<in> set documented_defaults \<Longrightarrow> map_of user_data f = None \<Longrightarrow>
      cell (profiles s') [SInt user_id, SInt guild_id] f = Some x"
    using user_row_defaults [OF mk] by (simp add: cell_def p)
  show ?thesis
    by (intro conjI impI; rule main; simp add: documented_defaults_def)
qed

theorem missing_fields_take_defaults_witness:
  "py_int ''1'' = Some 1
   \<and> fst (migrate_users 10 [(''1'', JObj [])] zero_state) = None
   \<and> cell (profiles (snd (migrate_users 10 [(''1'', JObj [])] zero_state))) [SInt 1, SInt 10]
        ''level'' = Some (SInt 1)
   \<and> cell (profiles (snd (migrate_users 10 [(''1'', JObj [])] zero_state))) [SInt 1, SInt 10]
        ''total_xp'' = Some (SInt 0)
   \<and> cell (profiles (snd (migrate_users 10 [(''1'', JObj [])] zero_state))) [SInt 1, SInt 10]
        ''xp_to_next_level'' = Some (SInt 100)
   \<and> cell (profiles (snd (migrate_users 10 [(''1'', JObj [])] zero_state))) [SInt 1, SInt 10]
        ''best_rank'' = Some (SInt 999)
   \<and> cell (profiles (snd (migrate_users 10 [(''1'', JObj [])] zero_state))) [SInt 1, SInt 10]
        ''previous_rank'' = Some (SInt 999)
   \<and> cell (profiles (snd (migrate_users 10 [(''1'', JObj [])] zero_state))) [SInt 1, SInt 10]
        ''rank_improvement'' = Some (SInt 0)
   \<and> cell (profiles (snd (migrate_users 10 [(''1'', JObj [])] zero_state))) [SInt 1, SInt 10]
        ''total_commands_used'' = Some (SInt 0)
   \<and> cell (profiles (snd (migrate_users 10 [(''1'', JObj [])] zero_state))) [SInt 1, SInt 10]
        ''total_messages'' = Some (SInt 0)
   \<and> cell (profiles (snd (migrate_users 10 [(''1'', JObj [])] zero_state))) [SInt 1, SInt 10]
        ''daily_streak'' = Some (SInt 0)
   \<and> cell (profiles (snd (migrate_users 10 [(''1'', JObj [])] zero_state))) [SInt 1, SInt 10]
        ''images_shared'' = Some (SInt 0)
   \<and> cell (profiles (snd (migrate_users 10 [(''1'', JObj [])] zero_state))) [SInt 1, SInt 10]
        ''long_messages'' = Some (SInt 0)
   \<and> cell (profiles (snd (migrate_users 10 [(''1'', JObj [])] zero_state))) [SInt 1, SInt 10]
        ''links_shared'' = Some (SInt 0)
   \<and> cell (profiles (snd (migrate_users 10 [(''1'', JObj [])] zero_state))) [SInt 1, SInt 10]
        ''goals_completed'' = Some (SInt 0)
   \<and> cell (profiles (snd (migrate_users 10 [(''1'', JObj [])] zero_state))) [SInt 1, SInt 10]
        ''boost_days'' = Some (SInt 0)
   \<and> cell (profiles (snd (migrate_users 10 [(''1'', JObj [])] zero_state))) [SInt 1, SInt 10]
        ''achievements'' = Some (SText ''[]'')
   \<and> cell (profiles (snd (migrate_users 10 [(''1'', JObj [])] zero_state))) [SInt 1, SInt 10]
        ''xp_history'' = Some (SText ''[]'')"
proof -
  have p: "py_int ''1'' = Some 1" by (simp add: py_int_eval)
  have e: "migrate_users 10 [(''1'', JObj [])] zero_state
             = (None, snd (migrate_users 10 [(''1'', JObj [])] zero_state))"
    unfolding bare_record_run by simp
  from missing_fields_take_defaults [OF p e] show ?thesis
    using p unfolding bare_record_run by simp
qed

text \<open>
  C3. A key that \<^verbatim>\<open>int\<close> rejects is skipped and everything else is processed as if the
  key were not there. For a guild key of the progression section, the run ends the same way,
  leaves the same store and prints the same text (counts included) but for the notices about
  that key. For a user key inside a guild, and for a guild key of the metadata section, the
  run is exactly the run on the document without the entry.
\<close>

theorem unparseable_keys_skipped:
  assumes "py_int k = None"
  shows "(k \<noteq> ''__meta__'' \<longrightarrow>
            fst (migrate_data (JObj (xs @ (k, v) # ys)) db_path w)
              = fst (migrate_data (JObj (xs @ ys)) db_path w)
          \<and> db (snd (migrate_data (JObj (xs @ (k, v) # ys)) db_path w))
              = db (snd (migrate_data (JObj (xs @ ys)) db_path w))
          \<and> filter (\<lambda>m. m \<noteq> SkippingInvalidGuild k)
                (stdout (snd (migrate_data (JObj (xs @ (k, v) # ys)) db_path w)))
              = filter (\<lambda>m. m \<noteq> SkippingInvalidGuild k)
                  (stdout (snd (migrate_data (JObj (xs @ ys)) db_path w))))
       \<and> (gk \<noteq> ''__meta__'' \<longrightarrow>
            migrate_data (JObj (xs @ (gk, JObj (us @ (k, v) # vs)) # ys)) db_path w
              = migrate_data (JObj (xs @ (gk, JObj (us @ vs)) # ys)) db_path w)
       \<and> (''__meta__'' \<notin> fst ` set xs \<longrightarrow>
            migrate_data (JObj (xs @ (''__meta__'', JObj (ms @ (k, v) # ns)) # ys)) db_path w
              = migrate_data (JObj (xs @ (''__meta__'', JObj (ms @ ns)) # ys)) db_path w)"
proof (intro conjI impI)
  assume k: "k \<noteq> ''__meta__''"
  have m: "dict_get (xs @ (k, v) # ys) ''__meta__'' (JObj [])
          = dict_get (xs @ ys) ''__meta__'' (JObj [])"
    using k by (simp add: dict_get_skip)
  have "agree k (migrate_guilds (guild_entries (xs @ (k, v) # ys)) zero_state)
          (migrate_guilds (guild_entries (xs @ ys)) zero_state)"
  proof (cases "k = ''__legacy__''")
    case True
    then show ?thesis
      by (simp add: guild_entries_append guild_entries_Cons agree_refl)
  next
    case False
    then show ?thesis
      using k migrate_guilds_skip [OF assms]
      by (simp add: guild_entries_append guild_entries_Cons)
  qed
  from outcome_agree [OF this]
  show "fst (migrate_data (JObj (xs @ (k, v) # ys)) db_path w)
              = fst (migrate_data (JObj (xs @ ys)) db_path w)"
    and "db (snd (migrate_data (JObj (xs @ (k, v) # ys)) db_path w))
              = db (snd (migrate_data (JObj (xs @ ys)) db_path w))"
    and "filter (\<lambda>m. m \<noteq> SkippingInvalidGuild k)
                (stdout (snd (migrate_data (JObj (xs @ (k, v) # ys)) db_path w)))
              = filter (\<lambda>m. m \<noteq> SkippingInvalidGuild k)
                  (stdout (snd (migrate_data (JObj (xs @ ys)) db_path w)))"
    by (simp_all only: migrate_data_normal_form m)
next
  assume gk: "gk \<noteq> ''__meta__''"
  have "migrate_guilds (guild_entries (xs @ (gk, JObj (us @ (k, v) # vs)) # ys)) zero_state
      = migrate_guilds (guild_entries (xs @ (gk, JObj (us @ vs)) # ys)) zero_state"
    using migrate_guilds_user_skip [OF assms]
    by (simp add: guild_entries_append guild_entries_Cons)
  moreover have "dict_get (xs @ (gk, JObj (us @ (k, v) # vs)) # ys) ''__meta__'' (JObj [])
      = dict_get (xs @ (gk, JObj (us @ vs)) # ys) ''__meta__'' (JObj [])"
    using gk by (rule dict_get_change)
  ultimately show "migrate_data (JObj (xs @ (gk, JObj (us @ (k, v) # vs)) # ys)) db_path w
              = migrate_data (JObj (xs @ (gk, JObj (us @ vs)) # ys)) db_path w"
    by (simp only: migrate_data_normal_form)
next
  assume x: "''__meta__'' \<notin> fst ` set xs"
  have "guild_entries (xs @ (''__meta__'', JObj (ms @ (k, v) # ns)) # ys)
      = guild_entries (xs @ (''__meta__'', JObj (ms @ ns)) # ys)"
    by (simp add: guild_entries_append guild_entries_Cons)
  then show "migrate_data (JObj (xs @ (''__meta__'', JObj (ms @ (k, v) # ns)) # ys)) db_path w
      = migrate_data (JObj (xs @ (''__meta__'', JObj (ms @ ns)) # ys)) db_path w"
    by (simp add: migrate_data_normal_form dict_get_first [OF x] outcome_meta_skip [OF assms])
qed

theorem unparseable_keys_skipped_witness:
  "py_int ''abc'' = None
   \<and> fst (migrate_data (JObj [(''abc'', JObj [(''7'', JObj [])]), (''10'', JObj [(''1'', JObj [])])])
          ''data/leveling.db'' \<lparr>db = empty_store, stdout = []\<rparr>)
     = fst (migrate_data (JObj [(''10'', JObj [(''1'', JObj [])])])
          ''data/leveling.db'' \<lparr>db = empty_store, stdout = []\<rparr>)
   \<and> db (snd (migrate_data
          (JObj [(''abc'', JObj [(''7'', JObj [])]), (''10'', JObj [(''1'', JObj [])])])
          ''data/leveling.db'' \<lparr>db = empty_store, stdout = []\<rparr>))
     = db (snd (migrate_data (JObj [(''10'', JObj [(''1'', JObj [])])])
          ''data/leveling.db'' \<lparr>db = empty_store, stdout = []\<rparr>))
   \<and> migrate_data (JObj [(''10'', JObj [(''abc'', JObj []), (''1'', JObj [])])])
          ''data/leveling.db'' \<lparr>db = empty_store, stdout = []\<rparr>
     = migrate_data (JObj [(''10'', JObj [(''1'', JObj [])])])
          ''data/leveling.db'' \<lparr>db = empty_store, stdout = []\<rparr>
   \<and> migrate_data (JObj [(''__meta__'', JObj [(''abc'', JObj []), (''10'', JObj [])])])
          ''data/leveling.db'' \<lparr>db = empty_store, stdout = []\<rparr>
     = migrate_data (JObj [(''__meta__'', JObj [(''10'', JObj [])])])
          ''data/leveling.db'' \<lparr>db = empty_store, stdout = []\<rparr>"
  using unparseable_keys_skipped [where k = "''abc''" and v = "JObj [(''7'', JObj [])]"
      and xs = "[]" and ys = "[(''10'', JObj [(''1'', JObj [])])]"
      and db_path = "''data/leveling.db''" and w = "\<lparr>db = empty_store, stdout = []\<rparr>"
      and gk = "''10''" and us = "[]" and vs = "[]" and ms = "[]" and ns = "[]"]
    unparseable_keys_skipped [where k = "''abc''" and v = "JObj []"
      and xs = "[]" and ys = "[]"
      and db_path = "''data/leveling.db''" and w = "\<lparr>db = empty_store, stdout = []\<rparr>"
      and gk = "''10''" and us = "[]" and vs = "[(''1'', JObj [])]" and ms = "[]"
      and ns = "[(''10'', JObj [])]"]
  by (simp add: py_int_eval)

text \<open>
  C4. After a run that completes, whatever the store held before, the row under the key of
  a record of the document is the row built from one record of the document for that key,
  every column of it: nothing of an earlier row survives. In particular an optional field
  that the record no longer has is back at its documented default.
\<close>

theorem rerun_replaces_rows:
  assumes "migrate_data data db_path w = (None, w')"
    and "(u, g, ud) \<in> set (migrated_records (progression data))"
  shows "\<exists>t d r. user_profiles (db w') = Some t
           \<and> (u, g, JObj d) \<in> set (migrated_records (progression data))
           \<and> make_row user_profiles_schema (user_params u g d) = Inr r
           \<and> t [SInt u, SInt g] = Some r
           \<and> (\<forall>(f, x) \<in> set documented_defaults. map_of d f = None \<longrightarrow> map_of r f = Some x)"
proof -
  from assms(1) obtain d0 z1 md z3
    where data: "data = JObj d0"
      and g1: "migrate_guilds (guild_entries d0) zero_state = (None, z1)"
      and md: "dict_get d0 ''__meta__'' (JObj []) = JObj md"
      and m: "migrate_goals md zero_state = (None, z3)"
      and dbw: "db w' = \<lparr>user_profiles =
                        Some (create_if_not_exists (user_profiles (db w)) ++ profiles z1),
                      daily_goals =
                        Some (create_if_not_exists (daily_goals (db w)) ++ goals z3)\<rparr>"
      and ou: "stdout w' = stdout w @ [Connecting db_path, MigratingUsers] @ out z1
                @ [MigratedUsers (user_count z1), MigratingGoals,
                   MigratedGoals (goal_count z3), MigrationComplete]"
    by (rule completed_migration)
  let ?recs = "migrated_records (progression data)"
  have recs: "?recs = migrated_records (guild_entries d0)"
    by (simp add: progression_def data)
  from migrate_guilds_settled [OF g1]
  have st: "settled ?recs Map.empty (profiles z1)"
    by (simp add: recs zero_state_def)
  from settled_written [OF st assms(2)] obtain d r
    where d: "(u, g, JObj d) \<in> set ?recs" and z: "profiles z1 [SInt u, SInt g] = Some r"
      and mk: "make_row user_profiles_schema (user_params u g d) = Inr r"
    by blast
  let ?t = "create_if_not_exists (user_profiles (db w)) ++ profiles z1"
  have t1: "user_profiles (db w') = Some ?t" by (simp add: dbw)
  have t2: "?t [SInt u, SInt g] = Some r" using z by (simp add: map_add_def)
  have t3: "\<forall>(f, x) \<in> set documented_defaults. map_of d f = None \<longrightarrow> map_of r f = Some x"
  proof
    fix p
    assume p: "p \<in> set documented_defaults"
    obtain f x where fx: "p = (f, x)" by (cases p)
    show "case p of (f, x) \<Rightarrow> map_of d f = None \<longrightarrow> map_of r f = Some x"
      using user_row_defaults [OF mk, of f x] p by (simp add: fx)
  qed
  from t1 d mk t2 t3 show ?thesis
    by (intro exI [of _ ?t] exI [of _ d] exI [of _ r] conjI)
qed

theorem rerun_replaces_rows_witness:
  "cell (create_if_not_exists (user_profiles (db (snd (migrate_data
          (JObj [(''10'', JObj [(''1'', JObj [(''level'', JInt 5)])])])
          ''data/leveling.db'' \<lparr>db = empty_store, stdout = []\<rparr>)))))
        [SInt 1, SInt 10] ''level'' = Some (SInt 5)
   \<and> fst (migrate_data (JObj [(''10'', JObj [(''1'', JObj [])])]) ''data/leveling.db''
          (snd (migrate_data
             (JObj [(''10'', JObj [(''1'', JObj [(''level'', JInt 5)])])])
             ''data/leveling.db'' \<lparr>db = empty_store, stdout = []\<rparr>))) = None
   \<and> migrated_records (progression (JObj [(''10'', JObj [(''1'', JObj [])])]))
        = [(1, 10, JObj [])]
   \<and> (\<exists>t r. user_profiles (db (snd (migrate_data (JObj [(''10'', JObj [(''1'', JObj [])])])
          ''data/leveling.db''
          (snd (migrate_data
             (JObj [(''10'', JObj [(''1'', JObj [(''level'', JInt 5)])])])
             ''data/leveling.db'' \<lparr>db = empty_store, stdout = []\<rparr>))))) = Some t
        \<and> make_row user_profiles_schema (user_params 1 10 []) = Inr r
        \<and> t [SInt 1, SInt 10] = Some r
        \<and> map_of r ''level'' = Some (SInt 1))"
proof -
  let ?old = "JObj [(''10'', JObj [(''1'', JObj [(''level'', JInt 5)])])]"
  let ?new = "JObj [(''10'', JObj [(''1'', JObj [])])]"
  let ?w = "snd (migrate_data ?old ''data/leveling.db'' \<lparr>db = empty_store, stdout = []\<rparr>)"
  have a: "cell (create_if_not_exists (user_profiles (db ?w))) [SInt 1, SInt 10] ''level''
      = Some (SInt 5)"
    by (simp add: run_eval row_eval py_int_eval cell_def)
  have e: "fst (migrate_data ?new ''data/leveling.db'' ?w) = None"
    by (simp add: run_eval row_eval py_int_eval)
  have r: "migrated_records (progression ?new) = [(1, 10, JObj [])]"
    by (simp add: records_eval py_int_eval)
  have m: "(1, 10, JObj []) \<in> set (migrated_records (progression ?new))"
    by (simp add: r)
  from rerun_replaces_rows [OF completed_run [OF e] m]
  have "\<exists>t r. user_profiles (db (snd (migrate_data ?new ''data/leveling.db'' ?w))) = Some t
        \<and> make_row user_profiles_schema (user_params 1 10 []) = Inr r
        \<and> t [SInt 1, SInt 10] = Some r
        \<and> map_of r ''level'' = Some (SInt 1)"
    unfolding r by (auto simp: documented_defaults_def)
  with a e r show ?thesis by (intro conjI)
qed

text \<open>
  C5, as the code has it. When the input path does not exist, the run prints a notice and
  returns normally with the store exactly as it was: nothing is connected, created, written
  or committed. When the path exists but is not a readable JSON file (a directory, a file
  without read permission, text that is not JSON), the run raises, still before it touches
  the store.
\<close>

theorem missing_input_aborts:
  "(fs json_path = Missing \<longrightarrow>
      migrate_levels fs json_path db_path w = (None, say (NotFound json_path) w)
      \<and> db (snd (migrate_levels fs json_path db_path w)) = db w)
   \<and> (fs json_path = Directory \<or> fs json_path = Unreadable \<or> fs json_path = Regular None \<longrightarrow>
      fst (migrate_levels fs json_path db_path w) \<noteq> None
      \<and> db (snd (migrate_levels fs json_path db_path w)) = db w)"
  by (auto simp: migrate_levels_def say_def)

theorem missing_input_aborts_witness:
  "migrate_levels (fs_with ''levels.json'' Missing) ''levels.json'' ''data/leveling.db''
       \<lparr>db = empty_store, stdout = []\<rparr>
     = (None, \<lparr>db = empty_store, stdout = [NotFound ''levels.json'']\<rparr>)
   \<and> fst (migrate_levels (fs_with ''levels.json'' Unreadable) ''levels.json'' ''data/leveling.db''
       \<lparr>db = empty_store, stdout = []\<rparr>) \<noteq> None
   \<and> db (snd (migrate_levels (fs_with ''levels.json'' Unreadable) ''levels.json''
       ''data/leveling.db'' \<lparr>db = empty_store, stdout = []\<rparr>)) = empty_store"
  using missing_input_aborts [of "fs_with ''levels.json'' Missing" "''levels.json''"
          "''data/leveling.db''" "\<lparr>db = empty_store, stdout = []\<rparr>"]
        missing_input_aborts [of "fs_with ''levels.json'' Unreadable" "''levels.json''"
          "''data/leveling.db''" "\<lparr>db = empty_store, stdout = []\<rparr>"]
  by (simp add: fs_with_def say_def)

text \<open>
  C5 as stated fails: a path that is a directory does not resolve to a readable file, yet
  \<^verbatim>\<open>os.path.exists\<close> is true for it and \<^verbatim>\<open>open\<close> raises.
\<close>

theorem directory_input_raises:
  "fst (migrate_levels (fs_with ''levels.json'' Directory) ''levels.json'' ''data/leveling.db''
         \<lparr>db = empty_store, stdout = []\<rparr>) = Some OSError"
  by (simp add: migrate_levels_def fs_with_def)



text \<open>
  C7, as the code has it. In every row written by either mapper, each list-valued column
  (achievements, xp_history, claimers, bonus_awarded_to) holds the \<^verbatim>\<open>json.dumps\<close> text of
  the source value, or of the empty list when the field is absent; that text denotes an
  array whenever the field is absent or its value is a list.
\<close>

theorem list_columns_serialized:
  "(py_int user_id_str = Some user_id
      \<and> migrate_users guild_id [(user_id_str, JObj user_data)] s = (None, s') \<longrightarrow>
        cell (profiles s') [SInt user_id, SInt guild_id] ''achievements''
          = Some (SText (dumps (dict_get user_data ''achievements'' (JArr []))))
      \<and> cell (profiles s') [SInt user_id, SInt guild_id] ''xp_history''
          = Some (SText (dumps (dict_get user_data ''xp_history'' (JArr [])))))
   \<and> (py_int guild_id_str = Some guild_id
      \<and> dict_get guild_meta ''daily_goal'' JNull = JObj daily_goal \<and> daily_goal \<noteq> []
      \<and> migrate_goals [(guild_id_str, JObj guild_meta)] s = (None, s'') \<longrightarrow>
        cell (goals s'') [SInt guild_id] ''claimers''
          = Some (SText (dumps (dict_get daily_goal ''claimers'' (JArr []))))
      \<and> cell (goals s'') [SInt guild_id] ''bonus_awarded_to''
          = Some (SText (dumps (dict_get daily_goal ''bonus_awarded_to'' (JArr [])))))
   \<and> (map_of rec f = None \<or> map_of rec f = Some (JArr xs) \<longrightarrow>
        denotes_array (dumps (dict_get rec f (JArr []))))"
proof (intro conjI impI; (elim conjE)?)
  assume p: "py_int user_id_str = Some user_id"
    and e: "migrate_users guild_id [(user_id_str, JObj user_data)] s = (None, s')"
  from migrate_users_single [OF p e] obtain r
    where mk: "make_row user_profiles_schema (user_params user_id guild_id user_data) = Inr r"
      and pr: "profiles s' = (profiles s)([SInt user_id, SInt guild_id] \<mapsto> r)"
    by blast
  note ev = user_profiles_schema_def user_params_def Let_def stored_def store_value_def
  show "cell (profiles s') [SInt user_id, SInt guild_id] ''achievements''
          = Some (SText (dumps (dict_get user_data ''achievements'' (JArr []))))"
    using user_column [OF mk, of 10 "SText (dumps (dict_get user_data ''achievements'' (JArr [])))"]
    by (simp add: cell_def pr ev)
  show "cell (profiles s') [SInt user_id, SInt guild_id] ''xp_history''
          = Some (SText (dumps (dict_get user_data ''xp_history'' (JArr []))))"
    using user_column [OF mk, of 20 "SText (dumps (dict_get user_data ''xp_history'' (JArr [])))"]
    by (simp add: cell_def pr ev)
next
  assume p: "py_int guild_id_str = Some guild_id"
    and d: "dict_get guild_meta ''daily_goal'' JNull = JObj daily_goal" and n: "daily_goal \<noteq> []"
    and e: "migrate_goals [(guild_id_str, JObj guild_meta)] s = (None, s'')"
  from migrate_goals_single [OF p d n e] obtain r
    where mk: "make_row daily_goals_schema (goal_params guild_id daily_goal) = Inr r"
      and gl: "goals s'' = (goals s)([SInt guild_id] \<mapsto> r)"
    by blast
  note ev = daily_goals_schema_def goal_params_def Let_def stored_def store_value_def
  show "cell (goals s'') [SInt guild_id] ''claimers''
          = Some (SText (dumps (dict_get daily_goal ''claimers'' (JArr []))))"
    using goal_column [OF mk, of 4 "SText (dumps (dict_get daily_goal ''claimers'' (JArr [])))"]
    by (simp add: cell_def gl ev)
  show "cell (goals s'') [SInt guild_id] ''bonus_awarded_to''
          = Some (SText (dumps (dict_get daily_goal ''bonus_awarded_to'' (JArr []))))"
    using goal_column [OF mk, of 6
        "SText (dumps (dict_get daily_goal ''bonus_awarded_to'' (JArr [])))"]
    by (simp add: cell_def gl ev)
next
  assume "map_of rec f = None \<or> map_of rec f = Some (JArr xs)"
  then show "denotes_array (dumps (dict_get rec f (JArr [])))"
    by (auto simp: dict_get_def denotes_array_def)
qed

theorem list_columns_serialized_witness:
  "py_int ''1'' = Some 1 \<and> py_int ''10'' = Some 10
   \<and> fst (migrate_users 10 [(''1'', JObj [(''achievements'', JArr [JStr ''a''])])] zero_state) = None
   \<and> cell (profiles (snd (migrate_users 10
          [(''1'', JObj [(''achievements'', JArr [JStr ''a''])])] zero_state)))
        [SInt 1, SInt 10] ''achievements'' = Some (SText (dumps (JArr [JStr ''a''])))
   \<and> cell (profiles (snd (migrate_users 10
          [(''1'', JObj [(''achievements'', JArr [JStr ''a''])])] zero_state)))
        [SInt 1, SInt 10] ''xp_history'' = Some (SText ''[]'')
   \<and> fst (migrate_goals [(''10'', JObj [(''daily_goal'', JObj [(''claimers'', JArr [JStr ''1''])])])]
          zero_state) = None
   \<and> cell (goals (snd (migrate_goals
          [(''10'', JObj [(''daily_goal'', JObj [(''claimers'', JArr [JStr ''1''])])])]
          zero_state)))
        [SInt 10] ''claimers'' = Some (SText (dumps (JArr [JStr ''1''])))
   \<and> cell (goals (snd (migrate_goals
          [(''10'', JObj [(''daily_goal'', JObj [(''claimers'', JArr [JStr ''1''])])])]
          zero_state)))
        [SInt 10] ''bonus_awarded_to'' = Some (SText ''[]'')
   \<and> denotes_array (dumps (JArr [JStr ''a'']))"
proof -
  have p1: "py_int ''1'' = Some 1" and p2: "py_int ''10'' = Some 10"
    by (simp_all add: py_int_eval)
  have u: "fst (migrate_users 10 [(''1'', JObj [(''achievements'', JArr [JStr ''a''])])]
      zero_state) = None"
    by (simp add: row_eval py_int_eval zero_state_def)
  have g: "fst (migrate_goals
      [(''10'', JObj [(''daily_goal'', JObj [(''claimers'', JArr [JStr ''1''])])])]
      zero_state) = None"
    by (simp add: row_eval py_int_eval zero_state_def)
  show ?thesis
    using list_columns_serialized [where user_id_str = "''1''" and user_id = 1
        and guild_id = 10 and user_data = "[(''achievements'', JArr [JStr ''a''])]"
        and s = zero_state
        and s' = "snd (migrate_users 10
            [(''1'', JObj [(''achievements'', JArr [JStr ''a''])])] zero_state)"
        and guild_id_str = "''10''"
        and guild_meta = "[(''daily_goal'', JObj [(''claimers'', JArr [JStr ''1''])])]"
        and daily_goal = "[(''claimers'', JArr [JStr ''1''])]"
        and s'' = "snd (migrate_goals
            [(''10'', JObj [(''daily_goal'', JObj [(''claimers'', JArr [JStr ''1''])])])]
            zero_state)"
        and rec = "[(''achievements'', JArr [JStr ''a''])]" and f = "''achievements''"
        and xs = "[JStr ''a'']"]
      p1 p2 u g completed_run [OF u] completed_run [OF g]
    by (simp add: dict_get_def)
qed

text \<open>
  C7 as stated fails: a record whose \<^verbatim>\<open>achievements\<close> is present and null is stored with
  the text \<^verbatim>\<open>null\<close> in that column, which is not an array.
\<close>

theorem null_list_field_stored_as_null:
  "cell (create_if_not_exists (user_profiles (db (snd
      (migrate_levels
         (fs_with ''levels.json''
            (Regular (Some (JObj [(''10'', JObj [(''1'', JObj [(''achievements'', JNull)])])]))))
         ''levels.json'' ''data/leveling.db'' \<lparr>db = empty_store, stdout = []\<rparr>)))))
      [SInt 1, SInt 10] ''achievements'' = Some (SText ''null'')
   \<and> \<not> denotes_array ''null''"
  by (simp add: migrate_levels_def fs_with_def migrate_data_def dict_pop_def say_def print_def
      ensure_tables_def create_if_not_exists_def empty_store_def row_eval py_int_eval cell_def
      denotes_array_def)

text \<open>
  C8. A guild that the metadata section of the input does not list with a truthy
  \<^verbatim>\<open>daily_goal\<close> keeps its daily-goal row exactly as it was (or stays without one),
  however the run ends.
\<close>

theorem other_goal_rows_untouched:
  assumes "\<And>data. fs json_path = Regular (Some data) \<Longrightarrow> g \<notin> set (goal_guilds data)"
  shows "goal_row (db (snd (migrate_levels fs json_path db_path w))) g = goal_row (db w) g"
proof (cases "fs json_path")
  case (Regular content)
  show ?thesis
  proof (cases content)
    case None
    then show ?thesis by (simp add: migrate_levels_def Regular say_def)
  next
    case (Some data)
    from assms have "g \<notin> set (goal_guilds data)" by (simp add: Regular Some)
    from migrate_data_goal_frame [OF this, of db_path "say (Loading json_path) w"]
    show ?thesis by (simp add: migrate_levels_def Regular Some say_def)
  qed
qed (simp_all add: migrate_levels_def say_def)

theorem other_goal_rows_untouched_witness:
  "goal_guilds (JObj [(''__meta__'',
       JObj [(''10'', JObj [(''daily_goal'', JObj [(''target'', JInt 500)])]),
             (''20'', JObj [])])]) = [10]
   \<and> goal_row \<lparr>user_profiles = None,
               daily_goals = Some [[SInt 20] \<mapsto> [(''guild_id'', SInt 20), (''target'', SInt 7)]]\<rparr>
        20 = Some [(''guild_id'', SInt 20), (''target'', SInt 7)]
   \<and> goal_row (db (snd (migrate_levels
        (fs_with ''levels.json'' (Regular (Some (JObj [(''__meta__'',
           JObj [(''10'', JObj [(''daily_goal'', JObj [(''target'', JInt 500)])]),
                 (''20'', JObj [])])]))))
        ''levels.json'' ''data/leveling.db''
        \<lparr>db = \<lparr>user_profiles = None,
                daily_goals =
                  Some [[SInt 20] \<mapsto> [(''guild_id'', SInt 20), (''target'', SInt 7)]]\<rparr>,
         stdout = []\<rparr>))) 20
       = Some [(''guild_id'', SInt 20), (''target'', SInt 7)]"
proof -
  let ?doc = "JObj [(''__meta__'',
       JObj [(''10'', JObj [(''daily_goal'', JObj [(''target'', JInt 500)])]),
             (''20'', JObj [])])]"
  let ?st = "\<lparr>user_profiles = None,
               daily_goals = Some [[SInt 20] \<mapsto> [(''guild_id'', SInt 20), (''target'', SInt 7)]]\<rparr>"
  have gg: "goal_guilds ?doc = [10]"
    by (simp add: goal_guilds_def upserted_goal_guilds_def dict_get_def py_int_eval)
  have h: "20 \<notin> set (goal_guilds data)"
    if "fs_with ''levels.json'' (Regular (Some ?doc)) ''levels.json'' = Regular (Some data)"
    for data
  proof -
    from that have "data = ?doc" by (simp add: fs_with_def)
    then show ?thesis by (simp add: gg)
  qed
  have r: "goal_row ?st 20 = Some [(''guild_id'', SInt 20), (''target'', SInt 7)]"
    by (simp add: goal_row_def)
  from other_goal_rows_untouched [of "fs_with ''levels.json'' (Regular (Some ?doc))"
      "''levels.json''" 20 "''data/leveling.db''" "\<lparr>db = ?st, stdout = []\<rparr>", OF h]
  have "goal_row (db (snd (migrate_levels (fs_with ''levels.json'' (Regular (Some ?doc)))
      ''levels.json'' ''data/leveling.db'' \<lparr>db = ?st, stdout = []\<rparr>))) 20 = goal_row ?st 20"
    by simp
  with gg r show ?thesis by simp
qed



text \<open>
  C10. A top-level key that coerces to an integer and whose value is not a dict is passed
  over without a trace: the loop goes on from the same state, and the whole run (outcome,
  store, counts and printed text) is the run on the document without that entry. No row,
  no count, no exception, no notice.
\<close>

theorem nondict_guild_skipped_silently:
  assumes "py_int guild_id_str = Some guild_id" and "\<not> is_dict users"
  shows "migrate_guilds ((guild_id_str, users) # rest) s = migrate_guilds rest s
       \<and> migrate_data (JObj (xs @ (guild_id_str, users) # ys)) db_path w
           = migrate_data (JObj (xs @ ys)) db_path w"
proof -
  have k: "guild_id_str \<noteq> ''__meta__''" "guild_id_str \<noteq> ''__legacy__''"
    using assms(1) py_int_reserved by auto
  have "migrate_guilds (guild_entries (xs @ (guild_id_str, users) # ys)) zero_state
          = migrate_guilds (guild_entries (xs @ ys)) zero_state"
    using k migrate_guilds_nondict [OF assms]
    by (simp add: guild_entries_append guild_entries_Cons)
  moreover have "dict_get (xs @ (guild_id_str, users) # ys) ''__meta__'' (JObj [])
          = dict_get (xs @ ys) ''__meta__'' (JObj [])"
    using k by (simp add: dict_get_skip)
  ultimately have "migrate_data (JObj (xs @ (guild_id_str, users) # ys)) db_path w
           = migrate_data (JObj (xs @ ys)) db_path w"
    by (simp only: migrate_data_normal_form)
  moreover have "migrate_guilds ((guild_id_str, users) # rest) s = migrate_guilds rest s"
    using migrate_guilds_nondict [OF assms, of "[]"] by simp
  ultimately show ?thesis by simp
qed

theorem nondict_guild_skipped_silently_witness:
  "py_int ''10'' = Some 10 \<and> \<not> is_dict (JArr [])
   \<and> migrate_guilds [(''10'', JArr [])] zero_state = (None, zero_state)
   \<and> migrate_data (JObj [(''10'', JArr [])]) ''data/leveling.db''
        \<lparr>db = empty_store, stdout = []\<rparr>
      = migrate_data (JObj []) ''data/leveling.db'' \<lparr>db = empty_store, stdout = []\<rparr>"
  using nondict_guild_skipped_silently [where guild_id_str = "''10''" and guild_id = 10
      and users = "JArr []" and rest = "[]" and s = zero_state and xs = "[]" and ys = "[]"
      and db_path = "''data/leveling.db''" and w = "\<lparr>db = empty_store, stdout = []\<rparr>"]
  by (simp add: py_int_eval)

end
